theory Spec2Isabelle
  imports Complex_Main "HOL-Library.Sublist"
begin

section \<open>The affective cognition engine of \<^verbatim>\<open>src/core/character/advanced_emotions.py\<close>\<close>

text \<open>
  The engine is embedded function by function. Conventions of the embedding:
  \<^item> a Python \<^verbatim>\<open>float\<close> is a \<^typ>\<open>real\<close>: arithmetic is exact, there is no rounding,
    no infinity and no NaN (the one \<^verbatim>\<open>float('inf')\<close> of the source is an \<^typ>\<open>real option\<close>);
    the one place where the outcome hangs on the rounding itself, the comparison of
    distances in \<^verbatim>\<open>get_closest_emotion\<close>, takes the computed distance as an argument;
  \<^item> a Python \<^verbatim>\<open>str\<close> is the list of its code points, one \<^typ>\<open>char\<close> each, so texts
    are those of code points below 256 (Latin-1), which covers every keyword of the table;
  \<^item> a \<^verbatim>\<open>dict\<close> is an association list in insertion order with distinct keys;
  \<^item> the mutable object \<^verbatim>\<open>self\<close> is a record passed in and returned updated;
  \<^item> \<^verbatim>\<open>datetime.now()\<close> is an argument \<open>now\<close>, a time in seconds;
  \<^item> an exception is the \<open>Inl\<close> branch of a sum.
\<close>

subsection \<open>Dimensional model\<close>

record AffectiveDimensions =
  valence :: real
  arousal :: real
  dominance :: real

definition AffectiveDimensions_default :: AffectiveDimensions where
  "AffectiveDimensions_default = \<lparr>valence = 0.0, arousal = 0.0, dominance = 0.0\<rparr>"

definition blend :: "AffectiveDimensions \<Rightarrow> AffectiveDimensions \<Rightarrow> real \<Rightarrow> AffectiveDimensions" where
  "blend self other weight =
     \<lparr>valence = valence self * (1 - weight) + valence other * weight,
      arousal = arousal self * (1 - weight) + arousal other * weight,
      dominance = dominance self * (1 - weight) + dominance other * weight\<rparr>"

definition distance_to :: "AffectiveDimensions \<Rightarrow> AffectiveDimensions \<Rightarrow> real" where
  "distance_to self other =
     sqrt ((valence self - valence other)\<^sup>2 +
           (arousal self - arousal other)\<^sup>2 +
           (dominance self - dominance other)\<^sup>2)"

definition decay_toward :: "AffectiveDimensions \<Rightarrow> AffectiveDimensions \<Rightarrow> real \<Rightarrow> AffectiveDimensions" where
  "decay_toward self baseline rate =
     \<lparr>valence = valence self + (valence baseline - valence self) * rate,
      arousal = arousal self + (arousal baseline - arousal self) * rate,
      dominance = dominance self + (dominance baseline - dominance self) * rate\<rparr>"

text \<open>The declared interval of the three axes, as the field comments give it.\<close>

definition in_affect_bounds :: "AffectiveDimensions \<Rightarrow> bool" where
  "in_affect_bounds d \<longleftrightarrow>
     - 1 \<le> valence d \<and> valence d \<le> 1 \<and>
     - 1 \<le> arousal d \<and> arousal d \<le> 1 \<and>
     - 1 \<le> dominance d \<and> dominance d \<le> 1"

subsection \<open>Primary affective systems\<close>

datatype AffectiveSystem = SEEKING | RAGE | FEAR | LUST | CARE | PANIC_GRIEF | PLAY

text \<open>The string value of an enum member, and the enum's lookup by value
  (\<^verbatim>\<open>AffectiveSystem(name)\<close>, which raises \<^verbatim>\<open>ValueError\<close> on any other string).\<close>

fun system_value :: "AffectiveSystem \<Rightarrow> string" where
  "system_value SEEKING = ''seeking''"
| "system_value RAGE = ''rage''"
| "system_value FEAR = ''fear''"
| "system_value LUST = ''lust''"
| "system_value CARE = ''care''"
| "system_value PANIC_GRIEF = ''panic_grief''"
| "system_value PLAY = ''play''"

definition all_systems :: "AffectiveSystem list" where
  "all_systems = [SEEKING, RAGE, FEAR, LUST, CARE, PANIC_GRIEF, PLAY]"

definition AffectiveSystem_of :: "string \<Rightarrow> AffectiveSystem option" where
  "AffectiveSystem_of name = find (\<lambda>s. system_value s = name) all_systems"

fun SYSTEM_DIMENSIONS :: "AffectiveSystem \<Rightarrow> AffectiveDimensions" where
  "SYSTEM_DIMENSIONS SEEKING = \<lparr>valence = 0.5, arousal = 0.6, dominance = 0.4\<rparr>"
| "SYSTEM_DIMENSIONS RAGE = \<lparr>valence = - 0.7, arousal = 0.9, dominance = 0.6\<rparr>"
| "SYSTEM_DIMENSIONS FEAR = \<lparr>valence = - 0.8, arousal = 0.7, dominance = - 0.6\<rparr>"
| "SYSTEM_DIMENSIONS LUST = \<lparr>valence = 0.6, arousal = 0.7, dominance = 0.2\<rparr>"
| "SYSTEM_DIMENSIONS CARE = \<lparr>valence = 0.7, arousal = 0.2, dominance = 0.3\<rparr>"
| "SYSTEM_DIMENSIONS PANIC_GRIEF = \<lparr>valence = - 0.8, arousal = 0.4, dominance = - 0.7\<rparr>"
| "SYSTEM_DIMENSIONS PLAY = \<lparr>valence = 0.8, arousal = 0.6, dominance = 0.3\<rparr>"

subsection \<open>Appraisal dimensions\<close>

record AppraisalResult =
  novelty :: real
  pleasantness :: real
  goal_relevance :: real
  goal_conduciveness :: real
  urgency :: real
  control :: real
  power :: real
  adjustment :: real
  internal_standards :: real
  external_standards :: real

definition AppraisalResult_default :: AppraisalResult where
  "AppraisalResult_default =
     \<lparr>novelty = 0.0, pleasantness = 0.0, goal_relevance = 0.0, goal_conduciveness = 0.0,
      urgency = 0.0, control = 0.0, power = 0.0, adjustment = 0.0,
      internal_standards = 0.0, external_standards = 0.0\<rparr>"

text \<open>\<^verbatim>\<open>max(-1, min(1, v))\<close>, written three times in \<^verbatim>\<open>to_dimensions\<close> and once in the
  clamping loop of \<^verbatim>\<open>appraise_message\<close>.\<close>

definition clamp_unit :: "real \<Rightarrow> real" where
  "clamp_unit v = max (- 1) (min 1 v)"

definition to_dimensions :: "AppraisalResult \<Rightarrow> AffectiveDimensions" where
  "to_dimensions self =
     (let valence' = (pleasantness self + goal_conduciveness self) / 2;
          arousal' = (novelty self + urgency self + goal_relevance self) / 3;
          dominance' = (control self + power self) / 2
      in \<lparr>valence = clamp_unit valence',
          arousal = clamp_unit arousal',
          dominance = clamp_unit dominance'\<rparr>)"

subsection \<open>Emotion labels\<close>

text \<open>The label \<^verbatim>\<open>EmotionLabel.FEAR\<close> is written \<open>FEAR_label\<close>: the name \<open>FEAR\<close> is the
  affective system.\<close>

datatype EmotionLabel =
    EXCITEMENT | JOY | ENTHUSIASM | DELIGHT
  | CONTENTMENT | SERENITY | CALM | PEACE
  | ANGER | FEAR_label | ANXIETY | FRUSTRATION | PANIC
  | SADNESS | MELANCHOLY | GRIEF | DESPAIR | BOREDOM
  | LOVE | COMPASSION | PRIDE | SHAME | GUILT | CONTEMPT | DISGUST | ENVY | JEALOUSY
  | GRATITUDE | AWE
  | CURIOSITY | INTEREST | SURPRISE | CONFUSION | DETERMINATION | HOPE
  | NEUTRAL

text \<open>\<^verbatim>\<open>AffectiveDimensions(v, a, d)\<close>, the constructor with positional arguments.\<close>

definition dims :: "real \<Rightarrow> real \<Rightarrow> real \<Rightarrow> AffectiveDimensions" where
  "dims v a d = \<lparr>valence = v, arousal = a, dominance = d\<rparr>"

definition EMOTION_COORDINATES :: "(EmotionLabel \<times> AffectiveDimensions) list" where
  "EMOTION_COORDINATES =
     [(EXCITEMENT, dims 0.7 0.8 0.5),
      (JOY, dims 0.8 0.6 0.4),
      (ENTHUSIASM, dims 0.7 0.7 0.6),
      (DELIGHT, dims 0.8 0.5 0.3),
      (CONTENTMENT, dims 0.6 (- 0.2) 0.3),
      (SERENITY, dims 0.7 (- 0.4) 0.4),
      (CALM, dims 0.4 (- 0.5) 0.3),
      (PEACE, dims 0.6 (- 0.6) 0.5),
      (ANGER, dims (- 0.6) 0.8 0.6),
      (FEAR_label, dims (- 0.8) 0.7 (- 0.6)),
      (ANXIETY, dims (- 0.5) 0.6 (- 0.4)),
      (FRUSTRATION, dims (- 0.5) 0.6 (- 0.2)),
      (PANIC, dims (- 0.9) 0.9 (- 0.8)),
      (SADNESS, dims (- 0.6) (- 0.3) (- 0.3)),
      (MELANCHOLY, dims (- 0.4) (- 0.4) (- 0.2)),
      (GRIEF, dims (- 0.8) 0.2 (- 0.6)),
      (DESPAIR, dims (- 0.9) (- 0.2) (- 0.8)),
      (BOREDOM, dims (- 0.3) (- 0.6) (- 0.1)),
      (LOVE, dims 0.9 0.4 0.2),
      (COMPASSION, dims 0.6 0.2 0.4),
      (PRIDE, dims 0.7 0.4 0.7),
      (SHAME, dims (- 0.7) 0.4 (- 0.6)),
      (GUILT, dims (- 0.6) 0.3 (- 0.4)),
      (CONTEMPT, dims (- 0.5) 0.2 0.6),
      (DISGUST, dims (- 0.7) 0.3 0.3),
      (ENVY, dims (- 0.5) 0.4 (- 0.3)),
      (JEALOUSY, dims (- 0.6) 0.6 (- 0.2)),
      (GRATITUDE, dims 0.8 0.3 (- 0.1)),
      (AWE, dims 0.6 0.5 (- 0.3)),
      (CURIOSITY, dims 0.4 0.5 0.3),
      (INTEREST, dims 0.3 0.4 0.2),
      (SURPRISE, dims 0.1 0.7 (- 0.1)),
      (CONFUSION, dims (- 0.2) 0.4 (- 0.3)),
      (DETERMINATION, dims 0.3 0.6 0.7),
      (HOPE, dims 0.6 0.3 0.2),
      (NEUTRAL, dims 0.0 0.0 0.0)]"

text \<open>An exception of the source is a value of this type.\<close>

datatype error = ValueError | ValidationError | OverflowError

text \<open>
  \<^verbatim>\<open>get_closest_emotion\<close> compares the distances with each other, and the comparison
  \<^verbatim>\<open>distance < min_distance\<close> reads the numbers that the floating-point arithmetic
  produced. There the exact value is not enough: two coordinates at the same exact distance
  from the input are ordered by the rounding of \<^verbatim>\<open>distance_to\<close>; on a huge coordinate its
  \<^verbatim>\<open>** 2\<close> raises \<^verbatim>\<open>OverflowError\<close>; and the sum of two huge squares is \<^verbatim>\<open>inf\<close>. So the scan
  takes the method \<^verbatim>\<open>distance_to\<close> as the machine executes it for its first argument,
  \<open>fp_distance_to\<close>: a function that returns the error, or the computed distance, a
  \<^typ>\<open>real option\<close> whose \<open>None\<close> is a distance that is no number: \<^verbatim>\<open>inf\<close>, or \<^verbatim>\<open>nan\<close> when
  a coordinate of the input is \<^verbatim>\<open>nan\<close>. Its arguments name the machine's values (the
  coordinate written \<open>0.7\<close> is the double nearest to it). \<open>fp_less\<close> is the comparison
  \<^verbatim>\<open>distance < min_distance\<close> of a computed distance with \<^verbatim>\<open>min_distance\<close>, which is a number
  or \<^verbatim>\<open>inf\<close>: no \<^verbatim>\<open>inf\<close> and no \<^verbatim>\<open>nan\<close> is less than it, and every number is less than \<^verbatim>\<open>inf\<close>.
  \<open>exact_distance_to\<close> is the method on a machine whose arithmetic is exact.
\<close>

type_synonym fp_distance = "AffectiveDimensions \<Rightarrow> AffectiveDimensions \<Rightarrow> error + real option"

definition fp_less :: "real option \<Rightarrow> real option \<Rightarrow> bool" where
  "fp_less x y =
     (case x of
        None \<Rightarrow> False
      | Some a \<Rightarrow> (case y of None \<Rightarrow> True | Some b \<Rightarrow> a < b))"


text \<open>The scan of \<^verbatim>\<open>get_closest_emotion\<close>. Its loop state is the pair
  \<open>(min_distance, closest)\<close>, at first \<^verbatim>\<open>(float('inf'), EmotionLabel.NEUTRAL)\<close>.
  \<open>closest_step\<close> is the body of the loop, \<open>closest_scan\<close> the loop, which an exception
  leaves at once. With \<^verbatim>\<open>min_distance\<close> still \<^verbatim>\<open>inf\<close> at the end, \<^verbatim>\<open>1 - min_distance / 2\<close> is
  \<^verbatim>\<open>-inf\<close> and the confidence \<^verbatim>\<open>max(0, -inf)\<close> is \<open>0\<close>.\<close>

definition closest_step ::
  "fp_distance \<Rightarrow> AffectiveDimensions \<Rightarrow> real option \<times> EmotionLabel
     \<Rightarrow> EmotionLabel \<times> AffectiveDimensions \<Rightarrow> error + real option \<times> EmotionLabel" where
  "closest_step fp_distance_to dimensions st entry =
     (case fp_distance_to dimensions (snd entry) of
        Inl e \<Rightarrow> Inl e
      | Inr distance \<Rightarrow>
          Inr (if fp_less distance (fst st) then (distance, fst entry) else st))"

fun closest_scan ::
  "fp_distance \<Rightarrow> AffectiveDimensions \<Rightarrow> real option \<times> EmotionLabel
     \<Rightarrow> (EmotionLabel \<times> AffectiveDimensions) list \<Rightarrow> error + real option \<times> EmotionLabel" where
  "closest_scan fp_distance_to dimensions st [] = Inr st"
| "closest_scan fp_distance_to dimensions st (entry # table) =
     (case closest_step fp_distance_to dimensions st entry of
        Inl e \<Rightarrow> Inl e
      | Inr st' \<Rightarrow> closest_scan fp_distance_to dimensions st' table)"

definition get_closest_emotion ::
  "fp_distance \<Rightarrow> AffectiveDimensions \<Rightarrow> error + EmotionLabel \<times> real" where
  "get_closest_emotion fp_distance_to dimensions =
     (case closest_scan fp_distance_to dimensions (None, NEUTRAL) EMOTION_COORDINATES of
        Inl e \<Rightarrow> Inl e
      | Inr (min_distance, closest) \<Rightarrow>
          Inr (closest,
               case min_distance of
                 None \<Rightarrow> 0
               | Some min_distance' \<Rightarrow> max 0 (1 - min_distance' / 2)))"



subsection \<open>Dictionaries\<close>

text \<open>\<^verbatim>\<open>d.get(k, default)\<close> and \<^verbatim>\<open>d[k] = v\<close> on an insertion-ordered dictionary: an
  assignment to a present key keeps its position, a new key goes to the end.\<close>

definition dict_get :: "('k \<times> 'v) list \<Rightarrow> 'k \<Rightarrow> 'v \<Rightarrow> 'v" where
  "dict_get d k dflt = (case map_of d k of None \<Rightarrow> dflt | Some v \<Rightarrow> v)"

fun dict_set :: "('k \<times> 'v) list \<Rightarrow> 'k \<Rightarrow> 'v \<Rightarrow> ('k \<times> 'v) list" where
  "dict_set [] k v = [(k, v)]"
| "dict_set ((k', v') # d) k v = (if k' = k then (k, v) # d else (k', v') # dict_set d k v)"

subsection \<open>Semantic appraisal patterns\<close>

text \<open>The keys of \<^verbatim>\<open>appraisal_effects\<close> are names of the ten fields of
  \<^verbatim>\<open>AppraisalResult\<close>, read and written with \<^verbatim>\<open>getattr\<close> and \<^verbatim>\<open>setattr\<close>.\<close>

datatype AppraisalField =
    Novelty | Pleasantness | Goal_relevance | Goal_conduciveness | Urgency
  | Control | Power | Adjustment | Internal_standards | External_standards

fun getattr :: "AppraisalResult \<Rightarrow> AppraisalField \<Rightarrow> real" where
  "getattr a Novelty = novelty a"
| "getattr a Pleasantness = pleasantness a"
| "getattr a Goal_relevance = goal_relevance a"
| "getattr a Goal_conduciveness = goal_conduciveness a"
| "getattr a Urgency = urgency a"
| "getattr a Control = control a"
| "getattr a Power = power a"
| "getattr a Adjustment = adjustment a"
| "getattr a Internal_standards = internal_standards a"
| "getattr a External_standards = external_standards a"

fun setattr :: "AppraisalResult \<Rightarrow> AppraisalField \<Rightarrow> real \<Rightarrow> AppraisalResult" where
  "setattr a Novelty v = a\<lparr>novelty := v\<rparr>"
| "setattr a Pleasantness v = a\<lparr>pleasantness := v\<rparr>"
| "setattr a Goal_relevance v = a\<lparr>goal_relevance := v\<rparr>"
| "setattr a Goal_conduciveness v = a\<lparr>goal_conduciveness := v\<rparr>"
| "setattr a Urgency v = a\<lparr>urgency := v\<rparr>"
| "setattr a Control v = a\<lparr>control := v\<rparr>"
| "setattr a Power v = a\<lparr>power := v\<rparr>"
| "setattr a Adjustment v = a\<lparr>adjustment := v\<rparr>"
| "setattr a Internal_standards v = a\<lparr>internal_standards := v\<rparr>"
| "setattr a External_standards v = a\<lparr>external_standards := v\<rparr>"

text \<open>The field \<^verbatim>\<open>keywords\<close> is written \<open>pattern_keywords\<close>.\<close>

record AppraisalPattern =
  pattern_keywords :: "string list"
  appraisal_effects :: "(AppraisalField \<times> real) list"
  system_activation :: "AffectiveSystem option"

definition APPRAISAL_PATTERNS :: "AppraisalPattern list" where
  "APPRAISAL_PATTERNS =
   [\<lparr>pattern_keywords = [''tell me'', ''what'', ''why'', ''how'', ''explain'', ''curious'', ''wonder'',
                 ''interesting'', ''discover'', ''explore'', ''learn'', ''understand'',
                 ''dimmi'', ''cosa'', ''perch'' @ [CHR 0xE9], ''come'', ''spiega'', ''curioso''],
     appraisal_effects = [(Novelty, 0.5), (Goal_relevance, 0.6), (Pleasantness, 0.3)],
     system_activation = Some SEEKING\<rparr>,
    \<lparr>pattern_keywords = [''angry'', ''furious'', ''hate'', ''unfair'', ''frustrating'', ''annoying'',
                 ''enemy'', ''betrayed'', ''cheated'', ''stolen'', ''injustice'',
                 ''arrabbiato'', ''odio'', ''ingiusto'', ''tradito'', ''nemico''],
     appraisal_effects = [(Pleasantness, - 0.7), (Goal_conduciveness, - 0.8),
                          (Urgency, 0.6), (Power, 0.4)],
     system_activation = Some RAGE\<rparr>,
    \<lparr>pattern_keywords = [''danger'', ''threat'', ''afraid'', ''scared'', ''terrified'', ''attack'',
                 ''enemy'', ''death'', ''kill'', ''destroy'', ''monster'', ''dark'',
                 ''pericolo'', ''paura'', ''minaccia'', ''morte'', ''attacco''],
     appraisal_effects = [(Pleasantness, - 0.8), (Urgency, 0.8), (Control, - 0.5),
                          (Goal_conduciveness, - 0.6)],
     system_activation = Some FEAR\<rparr>,
    \<lparr>pattern_keywords = [''help'', ''protect'', ''care'', ''love'', ''friend'', ''family'', ''child'',
                 ''safe'', ''comfort'', ''support'', ''together'', ''trust'',
                 ''aiuto'', ''proteggere'', ''amore'', ''amico'', ''famiglia''],
     appraisal_effects = [(Pleasantness, 0.7), (Goal_relevance, 0.6),
                          (Internal_standards, 0.5)],
     system_activation = Some CARE\<rparr>,
    \<lparr>pattern_keywords = [''lost'', ''gone'', ''died'', ''death'', ''miss'', ''alone'', ''lonely'',
                 ''abandoned'', ''left'', ''goodbye'', ''never'', ''farewell'',
                 ''perso'', ''morto'', ''solo'', ''addio'', ''abbandonato''],
     appraisal_effects = [(Pleasantness, - 0.8), (Goal_conduciveness, - 0.7),
                          (Control, - 0.6), (Adjustment, - 0.5)],
     system_activation = Some PANIC_GRIEF\<rparr>,
    \<lparr>pattern_keywords = [''fun'', ''play'', ''game'', ''joke'', ''laugh'', ''happy'', ''joy'', ''party'',
                 ''celebrate'', ''dance'', ''sing'', ''wonderful'', ''amazing'', ''great'',
                 ''fantastic'', ''awesome'', ''brilliant'', ''lovely'', ''beautiful'',
                 ''divertente'', ''gioco'', ''ridere'', ''felice'', ''festa'', ''bello'',
                 ''fantastico'', ''meraviglioso'', ''stupendo'', ''magnifico''],
     appraisal_effects = [(Pleasantness, 0.9), (Novelty, 0.4), (Control, 0.5),
                          (Goal_conduciveness, 0.6)],
     system_activation = Some PLAY\<rparr>,
    \<lparr>pattern_keywords = [''thank'', ''grateful'', ''appreciate'', ''thanks'', ''blessing'',
                 ''grazie'', ''grato'', ''apprezzo'', ''benedizione'', ''gentile'',
                 ''kind'', ''generous'', ''thoughtful''],
     appraisal_effects = [(Pleasantness, 0.8), (External_standards, 0.6),
                          (Goal_conduciveness, 0.5), (Internal_standards, 0.4)],
     system_activation = Some CARE\<rparr>,
    \<lparr>pattern_keywords = [''hope'', ''maybe'', ''possible'', ''future'', ''better'', ''tomorrow'',
                 ''chance'', ''opportunity'', ''dream'', ''wish'',
                 ''speranza'', ''forse'', ''futuro'', ''domani'', ''sogno''],
     appraisal_effects = [(Pleasantness, 0.6), (Goal_conduciveness, 0.5),
                          (Adjustment, 0.5)],
     system_activation = Some SEEKING\<rparr>,
    \<lparr>pattern_keywords = [''sorry'', ''apologize'', ''fault'', ''mistake'', ''wrong'', ''failed'',
                 ''ashamed'', ''embarrassed'', ''regret'',
                 ''scusa'', ''errore'', ''sbagliato'', ''vergogna'', ''colpa''],
     appraisal_effects = [(Pleasantness, - 0.5), (Internal_standards, - 0.6),
                          (External_standards, - 0.5), (Control, - 0.3)],
     system_activation = None\<rparr>,
    \<lparr>pattern_keywords = [''proud'', ''accomplished'', ''achieved'', ''success'', ''won'', ''victory'',
                 ''best'', ''excellent'', ''mastered'', ''hero'', ''well done'', ''bravo'',
                 ''orgoglioso'', ''successo'', ''vittoria'', ''eroe'', ''campione'',
                 ''complimenti'', ''bravissimo''],
     appraisal_effects = [(Pleasantness, 0.8), (Internal_standards, 0.8),
                          (Power, 0.7), (Control, 0.6)],
     system_activation = Some PLAY\<rparr>,
    \<lparr>pattern_keywords = [''surprise'', ''unexpected'', ''sudden'', ''shocking'', ''unbelievable'',
                 ''wow'', ''amazing'', ''incredible'', ''really'',
                 ''sorpresa'', ''improvviso'', ''incredibile'', ''davvero''],
     appraisal_effects = [(Novelty, 0.9), (Urgency, 0.4)],
     system_activation = Some SEEKING\<rparr>,
    \<lparr>pattern_keywords = [''hello'', ''hi'', ''hey'', ''good morning'', ''good evening'', ''greetings'',
                 ''welcome'', ''nice to meet'', ''pleasure'', ''good to see'',
                 ''ciao'', ''salve'', ''buongiorno'', ''buonasera'', ''piacere'',
                 ''benvenuto'', ''come stai'', ''come va''],
     appraisal_effects = [(Pleasantness, 0.6), (External_standards, 0.4),
                          (Goal_conduciveness, 0.3)],
     system_activation = Some PLAY\<rparr>,
    \<lparr>pattern_keywords = [''you're great'', ''you're amazing'', ''impressive'', ''admire'',
                 ''respect'', ''wise'', ''smart'', ''clever'', ''talented'', ''skilled'',
                 ''powerful'', ''strong'', ''beautiful'', ''magnificent'', ''noble'',
                 ''sei grande'', ''sei fantastico'', ''ammiro'', ''rispetto'',
                 ''saggio'', ''intelligente'', ''bravo'', ''forte'', ''potente''],
     appraisal_effects = [(Pleasantness, 0.85), (Internal_standards, 0.7),
                          (Power, 0.5), (External_standards, 0.6)],
     system_activation = Some PLAY\<rparr>,
    \<lparr>pattern_keywords = [''yes'', ''agree'', ''right'', ''true'', ''correct'', ''exactly'',
                 ''indeed'', ''absolutely'', ''of course'', ''certainly'',
                 ''s'' @ [CHR 0xEC], ''giusto'', ''vero'', ''esatto'', ''certo'', ''certamente'',
                 ''proprio cos'' @ [CHR 0xEC], ''hai ragione'', ''concordo''],
     appraisal_effects = [(Pleasantness, 0.5), (Goal_conduciveness, 0.4),
                          (External_standards, 0.3)],
     system_activation = Some CARE\<rparr>,
    \<lparr>pattern_keywords = [''tell me more'', ''fascinating'', ''intriguing'', ''love to hear'',
                 ''want to know'', ''sounds good'', ''sounds great'', ''exciting'',
                 ''raccontami'', ''affascinante'', ''interessante'', ''vorrei sapere'',
                 ''mi piace'', ''che bello'', ''entusiasmante''],
     appraisal_effects = [(Pleasantness, 0.6), (Novelty, 0.5),
                          (Goal_relevance, 0.5), (Goal_conduciveness, 0.4)],
     system_activation = Some SEEKING\<rparr>,
    \<lparr>pattern_keywords = [''adventure'', ''quest'', ''journey'', ''mission'', ''let's go'',
                 ''ready'', ''brave'', ''courage'', ''together'', ''allies'',
                 ''avventura'', ''missione'', ''viaggio'', ''andiamo'', ''pronti'',
                 ''coraggio'', ''insieme'', ''alleati'', ''compagni''],
     appraisal_effects = [(Pleasantness, 0.7), (Goal_relevance, 0.7),
                          (Goal_conduciveness, 0.6), (Power, 0.5)],
     system_activation = Some SEEKING\<rparr>,
    \<lparr>pattern_keywords = [''peace'', ''calm'', ''quiet'', ''rest'', ''relax'', ''serene'', ''tranquil'',
                 ''pace'', ''calma'', ''tranquillo'', ''riposo'', ''sereno'',
                 ''rilassante'', ''quiete'', ''armonia''],
     appraisal_effects = [(Pleasantness, 0.6), (Control, 0.5),
                          (Adjustment, 0.5), (Urgency, - 0.4)],
     system_activation = Some CARE\<rparr>,
    \<lparr>pattern_keywords = [''story'', ''tale'', ''legend'', ''once upon'', ''long ago'', ''tell'',
                 ''storia'', ''racconto'', ''leggenda'', ''c'era una volta'',
                 ''narra'', ''racconta''],
     appraisal_effects = [(Pleasantness, 0.5), (Novelty, 0.6),
                          (Goal_relevance, 0.4)],
     system_activation = Some SEEKING\<rparr>]"

subsection \<open>Advanced emotional state\<close>

text \<open>One entry of \<^verbatim>\<open>affect_history\<close>: the dictionary that \<^verbatim>\<open>_record_state\<close> appends, its
  keys as fields.\<close>

record HistoryEntry =
  entry_timestamp :: real
  entry_valence :: real
  entry_arousal :: real
  entry_dominance :: real
  entry_systems :: "(string \<times> real) list"

record AdvancedEmotionalState =
  character_id :: string
  current_affect :: AffectiveDimensions
  baseline_affect :: AffectiveDimensions
  system_activations :: "(string \<times> real) list"
  last_appraisal :: "AppraisalResult option"
  emotional_inertia :: real
  last_update :: real
  affect_history :: "HistoryEntry list"
  max_history :: int

text \<open>\<^verbatim>\<open>str.lower()\<close> on code points below 256: the letters A to Z, and the capital letters
  of U+00C0 to U+00DE without the multiplication sign U+00D7, move up by 32.\<close>

definition lower_char :: "char \<Rightarrow> char" where
  "lower_char c =
     (let n = (of_char c :: nat)
      in if (65 \<le> n \<and> n \<le> 90) \<or> (192 \<le> n \<and> n \<le> 222 \<and> n \<noteq> 215)
         then char_of (n + 32) else c)"

definition lower :: "string \<Rightarrow> string" where
  "lower message = map lower_char message"

text \<open>\<^verbatim>\<open>_activate_system\<close>.\<close>

definition activate_system ::
  "AdvancedEmotionalState \<Rightarrow> AffectiveSystem \<Rightarrow> real \<Rightarrow> AdvancedEmotionalState" where
  "activate_system self system intensity =
     (let current = dict_get (system_activations self) (system_value system) 0;
          new_value = current + (intensity - current) * (1 - emotional_inertia self)
      in self\<lparr>system_activations :=
                dict_set (system_activations self) (system_value system)
                  (max 0 (min 1 new_value))\<rparr>)"

text \<open>\<^verbatim>\<open>appraise_message\<close>. \<open>count_matches\<close> is the sum that counts the keywords occurring
  in the lowered message (\<^verbatim>\<open>kw in message_lower\<close> is \<^const>\<open>sublist\<close>), \<open>pattern_weight\<close> the
  weight with its negativity amplification, \<open>apply_effects\<close> the inner loop over the
  effects, \<open>appraise_pattern\<close> the body of the loop over the patterns and \<open>clamp_all\<close> the
  final loop over the ten field names. The list \<^verbatim>\<open>matched_patterns\<close> is written and never
  read, and is left out.\<close>

definition count_matches :: "string list \<Rightarrow> string \<Rightarrow> nat" where
  "count_matches kws message_lower = length (filter (\<lambda>kw. sublist kw message_lower) kws)"

definition is_negative_pattern :: "AppraisalPattern \<Rightarrow> bool" where
  "is_negative_pattern pattern =
     list_ex (\<lambda>k. dict_get (appraisal_effects pattern) k 0 < - 0.3)
       [Pleasantness, Goal_conduciveness]"

definition pattern_weight :: "AppraisalPattern \<Rightarrow> nat \<Rightarrow> real" where
  "pattern_weight pattern matches =
     (let weight = min 1.0 (real matches * 0.3)
      in if is_negative_pattern pattern then weight * 1.8 else weight)"

definition apply_effects :: "AppraisalResult \<Rightarrow> (AppraisalField \<times> real) list \<Rightarrow> real \<Rightarrow> AppraisalResult" where
  "apply_effects appraisal effects weight =
     foldl (\<lambda>a (dim, effect). setattr a dim (getattr a dim + effect * weight)) appraisal effects"

definition appraise_pattern ::
  "string \<Rightarrow> AppraisalResult \<times> AdvancedEmotionalState \<Rightarrow> AppraisalPattern
     \<Rightarrow> AppraisalResult \<times> AdvancedEmotionalState" where
  "appraise_pattern message_lower st pattern =
     (let appraisal = fst st; self = snd st;
          matches = count_matches (pattern_keywords pattern) message_lower
      in if matches > 0
         then (let weight = pattern_weight pattern matches;
                   appraisal' = apply_effects appraisal (appraisal_effects pattern) weight
               in case system_activation pattern of
                    Some system \<Rightarrow>
                      (let system_weight = weight * 0.5;
                           system_weight' =
                             (if system \<in> set [RAGE, FEAR, PANIC_GRIEF]
                              then system_weight * 1.5 else system_weight)
                       in (appraisal', activate_system self system system_weight'))
                  | None \<Rightarrow> (appraisal', self))
         else st)"

definition clamp_all :: "AppraisalResult \<Rightarrow> AppraisalResult" where
  "clamp_all appraisal =
     foldl (\<lambda>a field_name. setattr a field_name (max (- 1) (min 1 (getattr a field_name))))
       appraisal
       [Novelty, Pleasantness, Goal_relevance, Goal_conduciveness,
        Urgency, Control, Power, Adjustment,
        Internal_standards, External_standards]"

definition appraise_message ::
  "AdvancedEmotionalState \<Rightarrow> string \<Rightarrow> AppraisalResult \<times> AdvancedEmotionalState" where
  "appraise_message self message =
     (let message_lower = lower message;
          st = foldl (appraise_pattern message_lower) (AppraisalResult_default, self)
                 APPRAISAL_PATTERNS;
          appraisal = clamp_all (fst st)
      in (appraisal, (snd st)\<lparr>last_appraisal := Some appraisal\<rparr>))"

text \<open>\<^verbatim>\<open>_record_state\<close>. \<open>slice_from xs k\<close> is the Python slice \<^verbatim>\<open>xs[k:]\<close> for an integer
  \<open>k\<close>, a negative one counting from the end.\<close>

definition slice_from :: "'a list \<Rightarrow> int \<Rightarrow> 'a list" where
  "slice_from xs k =
     (if k < 0 then drop (nat (max 0 (int (length xs) + k))) xs else drop (nat k) xs)"

definition record_state :: "AdvancedEmotionalState \<Rightarrow> real \<Rightarrow> AdvancedEmotionalState" where
  "record_state self now =
     (let history = affect_history self @
            [\<lparr>entry_timestamp = now,
              entry_valence = valence (current_affect self),
              entry_arousal = arousal (current_affect self),
              entry_dominance = dominance (current_affect self),
              entry_systems = system_activations self\<rparr>]
      in self\<lparr>affect_history :=
                (if int (length history) > max_history self
                 then slice_from history (- max_history self) else history)\<rparr>)"

text \<open>\<^verbatim>\<open>update_affect\<close>. \<open>influence_step\<close> is the body of the loop over the activations,
  on the loop state \<open>(system_influence, total_activation)\<close>; \<open>system_influence_of\<close> is the
  loop with the normalisation after it; \<open>transition_resistance\<close> is the resistance with
  its two contamination branches.\<close>

definition influence_step ::
  "AffectiveDimensions \<times> real \<Rightarrow> string \<times> real \<Rightarrow> error + AffectiveDimensions \<times> real" where
  "influence_step acc item =
     (let system_influence = fst acc; total_activation = snd acc;
          system_name = fst item; activation = snd item
      in if activation > 0.1
         then (case AffectiveSystem_of system_name of
                 None \<Rightarrow> Inl ValueError
               | Some system \<Rightarrow>
                   (let system_dims = SYSTEM_DIMENSIONS system
                    in Inr (\<lparr>valence = valence system_influence + valence system_dims * activation,
                             arousal = arousal system_influence + arousal system_dims * activation,
                             dominance = dominance system_influence + dominance system_dims * activation\<rparr>,
                            total_activation + activation)))
         else Inr acc)"

fun influence_loop ::
  "AffectiveDimensions \<times> real \<Rightarrow> (string \<times> real) list \<Rightarrow> error + AffectiveDimensions \<times> real" where
  "influence_loop acc [] = Inr acc"
| "influence_loop acc (item # items) =
     (case influence_step acc item of
        Inl e \<Rightarrow> Inl e
      | Inr acc' \<Rightarrow> influence_loop acc' items)"

definition system_influence_of :: "(string \<times> real) list \<Rightarrow> error + AffectiveDimensions" where
  "system_influence_of activations =
     (case influence_loop (AffectiveDimensions_default, 0) activations of
        Inl e \<Rightarrow> Inl e
      | Inr (system_influence, total_activation) \<Rightarrow>
          Inr (if total_activation > 0
               then \<lparr>valence = valence system_influence / total_activation,
                     arousal = arousal system_influence / total_activation,
                     dominance = dominance system_influence / total_activation\<rparr>
               else system_influence))"

definition transition_resistance :: "real \<Rightarrow> real \<Rightarrow> real \<Rightarrow> real" where
  "transition_resistance inertia current_valence target_valence =
     (let resistance = 1 - inertia
      in if current_valence < - 0.3 \<and> target_valence > 0 then resistance * 0.4
         else if current_valence > 0.3 \<and> target_valence < 0 then resistance * 1.3
         else resistance)"

definition update_affect ::
  "AdvancedEmotionalState \<Rightarrow> AppraisalResult \<Rightarrow> real \<Rightarrow> error + AdvancedEmotionalState" where
  "update_affect self appraisal now =
     (let target = to_dimensions appraisal
      in case system_influence_of (system_activations self) of
           Inl e \<Rightarrow> Inl e
         | Inr system_influence \<Rightarrow>
             (let combined_target = blend target system_influence 0.4;
                  resistance = transition_resistance (emotional_inertia self)
                                 (valence (current_affect self)) (valence combined_target)
              in Inr (record_state
                        (self\<lparr>current_affect :=
                                 blend (current_affect self) combined_target (min 1.0 resistance)\<rparr>)
                        now)))"

text \<open>\<^verbatim>\<open>decay\<close>. The optional argument \<^verbatim>\<open>seconds_elapsed\<close> is an option; \<open>decay_rate_of\<close> is
  the rate selection and \<open>decay_system\<close> the body of the loop over the activations.\<close>

definition decay_rate_of :: "AffectiveDimensions \<Rightarrow> real \<Rightarrow> real" where
  "decay_rate_of current seconds_elapsed =
     (let base_decay_rate = 0.05 * (seconds_elapsed / 60.0)
      in if valence current < - 0.2
         then (let arousal_factor = 1.0 + max 0 (arousal current) * 0.5
               in base_decay_rate * 0.4 / arousal_factor)
         else if valence current > 0.2 then base_decay_rate * 1.5
         else base_decay_rate)"

definition decay_system :: "real \<Rightarrow> string \<times> real \<Rightarrow> string \<times> real" where
  "decay_system decay_rate item =
     (let system = fst item; activation = snd item
      in if system \<in> set [''rage'', ''fear'', ''panic_grief'']
         then (system, activation * (1 - decay_rate * 0.5))
         else if system \<in> set [''play'', ''care'']
         then (system, activation * (1 - decay_rate))
         else (system, activation * (1 - decay_rate * 0.8)))"

definition decay :: "AdvancedEmotionalState \<Rightarrow> real \<Rightarrow> real option \<Rightarrow> AdvancedEmotionalState" where
  "decay self now seconds_elapsed =
     (let seconds_elapsed' =
            (case seconds_elapsed of None \<Rightarrow> now - last_update self | Some secs \<Rightarrow> secs);
          decay_rate = decay_rate_of (current_affect self) seconds_elapsed'
      in self\<lparr>current_affect := decay_toward (current_affect self) (baseline_affect self) decay_rate,
              system_activations := map (decay_system decay_rate) (system_activations self),
              last_update := now\<rparr>)"

definition get_emotion_label ::
  "fp_distance \<Rightarrow> AdvancedEmotionalState \<Rightarrow> error + EmotionLabel \<times> real" where
  "get_emotion_label fp_distance_to self = get_closest_emotion fp_distance_to (current_affect self)"

text \<open>The constructor of the model class as \<^verbatim>\<open>create_advanced_emotional_state\<close> calls it:
  the field constraint \<^verbatim>\<open>Field(default=0.3, ge=0.0, le=1.0)\<close> of \<^verbatim>\<open>emotional_inertia\<close> is
  the only range validation, the other fields take their defaults, and \<^verbatim>\<open>__init__\<close> fills
  the empty activation dictionary with one zero per system.\<close>

definition new_AdvancedEmotionalState ::
  "string \<Rightarrow> AffectiveDimensions \<Rightarrow> AffectiveDimensions \<Rightarrow> real \<Rightarrow> real
     \<Rightarrow> error + AdvancedEmotionalState" where
  "new_AdvancedEmotionalState cid current baseline inertia now =
     (if 0.0 \<le> inertia \<and> inertia \<le> 1.0
      then Inr \<lparr>character_id = cid,
                current_affect = current,
                baseline_affect = baseline,
                system_activations = map (\<lambda>s. (system_value s, 0.0)) all_systems,
                last_appraisal = None,
                emotional_inertia = inertia,
                last_update = now,
                affect_history = [],
                max_history = 50\<rparr>
      else Inl ValidationError)"

definition create_advanced_emotional_state ::
  "string \<Rightarrow> real \<Rightarrow> real \<Rightarrow> real \<Rightarrow> real \<Rightarrow> real \<Rightarrow> error + AdvancedEmotionalState" where
  "create_advanced_emotional_state cid baseline_valence baseline_arousal baseline_dominance
       inertia now =
     (let baseline = \<lparr>valence = baseline_valence,
                      arousal = baseline_arousal,
                      dominance = baseline_dominance\<rparr>
      in new_AdvancedEmotionalState cid baseline baseline inertia now)"

subsection \<open>Concrete inputs\<close>

text \<open>The state the constructor builds for character \<open>''c''\<close> at time \<open>0\<close>, with a current
  affect of its own: seven activations at zero, no appraisal, no history.\<close>

definition state_with ::
  "AffectiveDimensions \<Rightarrow> AffectiveDimensions \<Rightarrow> real \<Rightarrow> AdvancedEmotionalState" where
  "state_with current baseline inertia =
     \<lparr>character_id = ''c'',
      current_affect = current,
      baseline_affect = baseline,
      system_activations = map (\<lambda>s. (system_value s, 0.0)) all_systems,
      last_appraisal = None,
      emotional_inertia = inertia,
      last_update = 0,
      affect_history = [],
      max_history = 50\<rparr>"

text \<open>An appraisal whose only non-zero fields are the two that make the target valence:
  \<open>appraisal_of_valence v\<close> has the derived target valence \<open>v\<close> for \<open>v\<close> in \<open>[-1, 1]\<close>.\<close>

definition appraisal_of_valence :: "real \<Rightarrow> AppraisalResult" where
  "appraisal_of_valence v =
     AppraisalResult_default\<lparr>pleasantness := v, goal_conduciveness := v\<rparr>"

text \<open>The declared intervals of a state: the three axes of the current affect in
  \<open>[-1, 1]\<close> and every activation in \<open>[0, 1]\<close> (\<open>state_in_bounds\<close>), the inertia in \<open>[0, 1]\<close>
  (\<open>inertia_in_bounds\<close>).\<close>

definition activations_in_bounds :: "(string \<times> real) list \<Rightarrow> bool" where
  "activations_in_bounds activations = list_all (\<lambda>item. 0 \<le> snd item \<and> snd item \<le> 1) activations"

definition inertia_in_bounds :: "AdvancedEmotionalState \<Rightarrow> bool" where
  "inertia_in_bounds self \<longleftrightarrow> 0 \<le> emotional_inertia self \<and> emotional_inertia self \<le> 1"

definition state_in_bounds :: "AdvancedEmotionalState \<Rightarrow> bool" where
  "state_in_bounds self \<longleftrightarrow>
     in_affect_bounds (current_affect self) \<and> activations_in_bounds (system_activations self)"

text \<open>Every key of the activation dictionary is the value of a system, as in every
  dictionary that \<^verbatim>\<open>__init__\<close> and \<^verbatim>\<open>_activate_system\<close> build.\<close>

definition known_systems :: "(string \<times> real) list \<Rightarrow> bool" where
  "known_systems activations = list_all (\<lambda>item. AffectiveSystem_of (fst item) \<noteq> None) activations"

text \<open>The declared interval of the ten appraisal fields.\<close>

definition appraisal_in_bounds :: "AppraisalResult \<Rightarrow> bool" where
  "appraisal_in_bounds a =
     list_all (\<lambda>field_name. - 1 \<le> getattr a field_name \<and> getattr a field_name \<le> 1)
       [Novelty, Pleasantness, Goal_relevance, Goal_conduciveness,
        Urgency, Control, Power, Adjustment,
        Internal_standards, External_standards]"

text \<open>The message of Scenario A.\<close>

definition scenario_A_message :: string where
  "scenario_A_message = ''Thank you so much, I am so grateful''"

text \<open>No keyword of any pattern occurs in the lowered message: the text matches nothing.\<close>

definition no_keyword_in :: "string \<Rightarrow> bool" where
  "no_keyword_in message =
     list_all (\<lambda>pattern. list_all (\<lambda>kw. \<not> sublist kw (lower message)) (pattern_keywords pattern))
       APPRAISAL_PATTERNS"

text \<open>A state inside every declared interval: a pleasant current affect above the default
  baseline, the CARE system half active.\<close>

definition warm_state :: AdvancedEmotionalState where
  "warm_state =
     (state_with (dims 0.5 0.0 0.0) (dims 0.15 0.1 0.0) 0.25)
       \<lparr>system_activations :=
          [(''seeking'', 0.0), (''rage'', 0.0), (''fear'', 0.0), (''lust'', 0.0),
           (''care'', 0.5), (''panic_grief'', 0.0), (''play'', 0.0)]\<rparr>"

section \<open>Properties\<close>

subsection \<open>Interpolation stays in the declared interval\<close>

lemma convex_unit:
  fixes x y w :: real
  assumes "- 1 \<le> x" "x \<le> 1" "- 1 \<le> y" "y \<le> 1" "0 \<le> w" "w \<le> 1"
  shows "- 1 \<le> x * (1 - w) + y * w" and "x * (1 - w) + y * w \<le> 1"
proof -
  have a1: "x * (1 - w) \<le> 1 - w"
    using mult_right_mono [of x 1 "1 - w"] assms by simp
  have a2: "- (1 - w) \<le> x * (1 - w)"
    using mult_right_mono [of "- 1" x "1 - w"] assms by simp
  have b1: "y * w \<le> w"
    using mult_right_mono [of y 1 w] assms by simp
  have b2: "- w \<le> y * w"
    using mult_right_mono [of "- 1" y w] assms by simp
  show "- 1 \<le> x * (1 - w) + y * w" using a2 b2 by linarith
  show "x * (1 - w) + y * w \<le> 1" using a1 b1 by linarith
qed

lemma blend_in_bounds:
  assumes "in_affect_bounds a" "in_affect_bounds b" "0 \<le> w" "w \<le> 1"
  shows "in_affect_bounds (blend a b w)"
  using assms by (simp add: in_affect_bounds_def blend_def convex_unit)

lemma decay_toward_eq_blend: "decay_toward a b w = blend a b w"
  by (simp add: decay_toward_def blend_def algebra_simps)

lemma SYSTEM_DIMENSIONS_bounds: "in_affect_bounds (SYSTEM_DIMENSIONS s)"
  by (cases s) (simp_all add: in_affect_bounds_def)

lemma clamp_unit_bounds: "- 1 \<le> clamp_unit v \<and> clamp_unit v \<le> 1"
  by (simp add: clamp_unit_def)

lemma to_dimensions_bounds: "in_affect_bounds (to_dimensions a)"
  by (simp add: to_dimensions_def in_affect_bounds_def Let_def clamp_unit_bounds)

lemma abs_add_scaled:
  fixes v c a t :: real
  assumes "\<bar>v\<bar> \<le> t" "- 1 \<le> c" "c \<le> 1" "0 \<le> a"
  shows "\<bar>v + c * a\<bar> \<le> t + a"
proof -
  have "c * a \<le> a" using mult_right_mono [of c 1 a] assms by simp
  moreover have "- a \<le> c * a" using mult_right_mono [of "- 1" c a] assms by simp
  ultimately show ?thesis using assms(1) by linarith
qed

lemma influence_step_inv:
  assumes step: "influence_step (d, t) item = Inr (d', t')"
    and inv: "0 \<le> t" "\<bar>valence d\<bar> \<le> t" "\<bar>arousal d\<bar> \<le> t" "\<bar>dominance d\<bar> \<le> t"
  shows "0 \<le> t' \<and> \<bar>valence d'\<bar> \<le> t' \<and> \<bar>arousal d'\<bar> \<le> t' \<and> \<bar>dominance d'\<bar> \<le> t'"
proof (cases "snd item > 0.1")
  case False
  with step have "d' = d" "t' = t" by (simp_all add: influence_step_def)
  with inv show ?thesis by simp
next
  case True
  then have pos: "0 \<le> snd item" by simp
  from step True obtain system where
    d': "d' = \<lparr>valence = valence d + valence (SYSTEM_DIMENSIONS system) * snd item,
               arousal = arousal d + arousal (SYSTEM_DIMENSIONS system) * snd item,
               dominance = dominance d + dominance (SYSTEM_DIMENSIONS system) * snd item\<rparr>"
    and t': "t' = t + snd item"
    by (auto simp add: influence_step_def Let_def split: option.splits)
  have b: "in_affect_bounds (SYSTEM_DIMENSIONS system)" by (rule SYSTEM_DIMENSIONS_bounds)
  show ?thesis
    using inv pos b unfolding d' t' in_affect_bounds_def
    by (simp add: abs_add_scaled)
qed

lemma influence_loop_inv:
  assumes "influence_loop (d, t) items = Inr (d', t')"
    and "0 \<le> t" "\<bar>valence d\<bar> \<le> t" "\<bar>arousal d\<bar> \<le> t" "\<bar>dominance d\<bar> \<le> t"
  shows "0 \<le> t' \<and> \<bar>valence d'\<bar> \<le> t' \<and> \<bar>arousal d'\<bar> \<le> t' \<and> \<bar>dominance d'\<bar> \<le> t'"
  using assms
proof (induction items arbitrary: d t)
  case Nil
  then show ?case by simp
next
  case (Cons item items)
  from Cons.prems(1) obtain d1 t1 where
    s1: "influence_step (d, t) item = Inr (d1, t1)" and
    l1: "influence_loop (d1, t1) items = Inr (d', t')"
    by (auto split: sum.splits)
  from influence_step_inv [OF s1 Cons.prems(2-5)]
  show ?case using Cons.IH [OF l1] by blast
qed

lemma system_influence_of_bounds:
  assumes "system_influence_of activations = Inr si"
  shows "in_affect_bounds si"
proof -
  from assms obtain d t where
    loop: "influence_loop (AffectiveDimensions_default, 0) activations = Inr (d, t)" and
    si: "si = (if t > 0 then \<lparr>valence = valence d / t, arousal = arousal d / t,
                               dominance = dominance d / t\<rparr> else d)"
    by (auto simp add: system_influence_of_def split: sum.splits prod.splits)
  have inv: "0 \<le> t \<and> \<bar>valence d\<bar> \<le> t \<and> \<bar>arousal d\<bar> \<le> t \<and> \<bar>dominance d\<bar> \<le> t"
    by (rule influence_loop_inv [OF loop]) (simp_all add: AffectiveDimensions_default_def)
  show ?thesis
  proof (cases "t > 0")
    case True
    with inv have "- 1 \<le> valence d / t \<and> valence d / t \<le> 1"
      "- 1 \<le> arousal d / t \<and> arousal d / t \<le> 1"
      "- 1 \<le> dominance d / t \<and> dominance d / t \<le> 1"
      by (auto simp add: field_simps abs_le_iff)
    with True si show ?thesis by (simp add: in_affect_bounds_def)
  next
    case False
    with inv have "t = 0" by simp
    with inv have "valence d = 0" "arousal d = 0" "dominance d = 0" by simp_all
    with False si show ?thesis by (simp add: in_affect_bounds_def)
  qed
qed

lemma influence_step_known:
  assumes "AffectiveSystem_of (fst item) \<noteq> None"
  shows "\<exists>acc'. influence_step acc item = Inr acc'"
  using assms by (auto simp add: influence_step_def Let_def)

lemma influence_loop_known:
  assumes "known_systems activations"
  shows "\<exists>acc'. influence_loop acc activations = Inr acc'"
  using assms
proof (induction activations arbitrary: acc)
  case Nil
  then show ?case by simp
next
  case (Cons item items)
  then have k: "AffectiveSystem_of (fst item) \<noteq> None" and ks: "known_systems items"
    by (simp_all add: known_systems_def)
  from influence_step_known [OF k] obtain acc1 where "influence_step acc item = Inr acc1" ..
  then show ?case using Cons.IH [OF ks, of acc1] by simp
qed

lemma system_influence_of_known:
  assumes "known_systems activations"
  shows "\<exists>si. system_influence_of activations = Inr si"
proof -
  from influence_loop_known [OF assms] obtain acc where
    "influence_loop (AffectiveDimensions_default, 0) activations = Inr acc" ..
  then show ?thesis by (cases acc) (simp add: system_influence_of_def)
qed

lemma current_affect_record_state [simp]:
  "current_affect (record_state self now) = current_affect self"
  by (simp add: record_state_def Let_def)

lemma update_affect_Inr:
  assumes "update_affect self appraisal now = Inr self'"
  obtains si where "system_influence_of (system_activations self) = Inr si"
    and "current_affect self' =
           blend (current_affect self) (blend (to_dimensions appraisal) si 0.4)
             (min 1 (transition_resistance (emotional_inertia self)
                       (valence (current_affect self))
                       (valence (blend (to_dimensions appraisal) si 0.4))))"
  using assms by (auto simp add: update_affect_def Let_def split: sum.splits)

lemma update_affect_known:
  assumes "known_systems (system_activations self)"
  shows "\<exists>self'. update_affect self appraisal now = Inr self'"
  using system_influence_of_known [OF assms]
  by (auto simp add: update_affect_def Let_def)

lemma transition_weight_unit:
  assumes "inertia \<le> 1"
  shows "0 \<le> min 1 (transition_resistance inertia cv tv) \<and> min 1 (transition_resistance inertia cv tv) \<le> 1"
  using assms by (simp add: transition_resistance_def Let_def)

lemma update_affect_current_in_bounds:
  assumes cb: "in_affect_bounds (current_affect self)"
    and i: "emotional_inertia self \<le> 1"
    and upd: "update_affect self appraisal now = Inr self'"
  shows "in_affect_bounds (current_affect self')"
proof -
  from upd obtain si where
    si: "system_influence_of (system_activations self) = Inr si" and
    cur: "current_affect self' =
           blend (current_affect self) (blend (to_dimensions appraisal) si 0.4)
             (min 1 (transition_resistance (emotional_inertia self)
                       (valence (current_affect self))
                       (valence (blend (to_dimensions appraisal) si 0.4))))"
    by (rule update_affect_Inr)
  have target: "in_affect_bounds (blend (to_dimensions appraisal) si 0.4)"
    by (rule blend_in_bounds [OF to_dimensions_bounds system_influence_of_bounds [OF si]]) simp_all
  note w = transition_weight_unit [OF i, of "valence (current_affect self)"
             "valence (blend (to_dimensions appraisal) si 0.4)"]
  show ?thesis
    unfolding cur by (rule blend_in_bounds [OF cb target conjunct1 [OF w] conjunct2 [OF w]])
qed

lemma update_affect_in_bounds:
  assumes "state_in_bounds self" "inertia_in_bounds self"
    and upd: "update_affect self appraisal now = Inr self'"
  shows "state_in_bounds self'"
proof -
  from upd have "system_activations self' = system_activations self"
    by (auto simp add: update_affect_def record_state_def Let_def split: sum.splits)
  moreover from assms have "in_affect_bounds (current_affect self')"
    by (intro update_affect_current_in_bounds [OF _ _ upd])
       (simp_all add: state_in_bounds_def inertia_in_bounds_def)
  ultimately show ?thesis using assms(1) by (simp add: state_in_bounds_def)
qed

lemma dict_set_in_bounds:
  assumes "activations_in_bounds d" "0 \<le> v" "v \<le> 1"
  shows "activations_in_bounds (dict_set d k v)"
  using assms by (induction d) (auto simp add: activations_in_bounds_def)

lemma activate_system_in_bounds:
  assumes "state_in_bounds self"
  shows "state_in_bounds (activate_system self system intensity)"
  using assms by (simp add: state_in_bounds_def activate_system_def Let_def dict_set_in_bounds)

lemma appraise_pattern_in_bounds:
  assumes "state_in_bounds (snd st)"
  shows "state_in_bounds (snd (appraise_pattern ml st pattern))"
  using assms
  by (simp add: appraise_pattern_def Let_def activate_system_in_bounds split: option.splits)

lemma foldl_appraise_in_bounds:
  assumes "state_in_bounds (snd st)"
  shows "state_in_bounds (snd (foldl (appraise_pattern ml) st ps))"
  using assms by (induction ps arbitrary: st) (simp_all add: appraise_pattern_in_bounds)

lemma appraise_message_in_bounds:
  assumes "state_in_bounds self"
  shows "state_in_bounds (snd (appraise_message self message))"
proof -
  have "state_in_bounds (snd (foldl (appraise_pattern (lower message))
          (AppraisalResult_default, self) APPRAISAL_PATTERNS))"
    by (rule foldl_appraise_in_bounds) (simp add: assms)
  then show ?thesis by (simp add: appraise_message_def Let_def state_in_bounds_def)
qed

lemma known_all_systems: "known_systems (map (\<lambda>s. (system_value s, v)) all_systems)"
  by (simp add: known_systems_def all_systems_def AffectiveSystem_of_def)

lemma transition_resistance_contaminated:
  "cv < - 0.3 \<Longrightarrow> tv > 0 \<Longrightarrow> transition_resistance i cv tv = (1 - i) * 0.4"
  by (simp add: transition_resistance_def Let_def)

lemma transition_resistance_sliding:
  "cv > 0.3 \<Longrightarrow> tv < 0 \<Longrightarrow> transition_resistance i cv tv = (1 - i) * 1.3"
  by (simp add: transition_resistance_def Let_def)

lemma transition_resistance_neutral:
  "- 0.3 \<le> cv \<Longrightarrow> cv \<le> 0.3 \<Longrightarrow> transition_resistance i cv tv = 1 - i"
  by (simp add: transition_resistance_def Let_def)

lemma scenario_valences:
  fixes i c :: real
  assumes "0 \<le> i" "i \<le> 1" "0 < c"
  shows "(- 0.5) * (1 - min 1 ((1 - i) * 0.4)) + c * min 1 ((1 - i) * 0.4)
           < 0 * (1 - min 1 (1 - i)) + c * min 1 (1 - i)"
proof -
  define u where "u = 1 - i"
  have u: "0 \<le> u" "u \<le> 1" using assms by (simp_all add: u_def)
  have m1: "min 1 (u * 0.4) = u * 0.4" using u by simp
  have m2: "min 1 u = u" using u by simp
  have "0 \<le> u * c" using u assms by simp
  then have "(- 0.5) * (1 - u * 0.4) + c * (u * 0.4) < c * u"
    using u by (simp add: algebra_simps)
  then show ?thesis unfolding u_def [symmetric] m1 m2 by simp
qed

lemma system_influence_of_zero:
  "system_influence_of (map (\<lambda>s. (system_value s, 0)) all_systems) = Inr AffectiveDimensions_default"
  by (simp add: system_influence_of_def all_systems_def influence_step_def AffectiveDimensions_default_def)

lemma update_affect_state_with:
  "map_sum id (valence \<circ> current_affect) (update_affect (state_with current baseline inertia) appraisal now) =
     Inr (valence (blend current (blend (to_dimensions appraisal) AffectiveDimensions_default 0.4)
            (min 1 (transition_resistance inertia (valence current)
                      (valence (blend (to_dimensions appraisal) AffectiveDimensions_default 0.4))))))"
  by (simp add: update_affect_def state_with_def system_influence_of_zero Let_def)

lemma to_dimensions_appraisal_of_valence:
  "valence (to_dimensions (appraisal_of_valence v)) = clamp_unit v"
  by (simp add: to_dimensions_def appraisal_of_valence_def AppraisalResult_default_def)

lemma scenario_values:
  fixes i vsi :: real
  assumes "0 \<le> i" "i \<le> 1"
  shows "(- 0.5) * (1 - min 1 ((1 - i) * 0.4)) + (0.8 * (1 - 0.4) + vsi * 0.4) * min 1 ((1 - i) * 0.4)
           = - 0.5 + (0.48 + 0.4 * vsi + 0.5) * (0.4 * (1 - i))"
    and "0 * (1 - min 1 (1 - i)) + (0.8 * (1 - 0.4) + vsi * 0.4) * min 1 (1 - i)
           = (0.48 + 0.4 * vsi) * (1 - i)"
proof -
  have m1: "min 1 ((1 - i) * 0.4) = (1 - i) * 0.4" using assms by simp
  have m2: "min 1 (1 - i) = 1 - i" using assms by simp
  show "(- 0.5) * (1 - min 1 ((1 - i) * 0.4)) + (0.8 * (1 - 0.4) + vsi * 0.4) * min 1 ((1 - i) * 0.4)
           = - 0.5 + (0.48 + 0.4 * vsi + 0.5) * (0.4 * (1 - i))"
    unfolding m1 by (simp add: field_simps)
  show "0 * (1 - min 1 (1 - i)) + (0.8 * (1 - 0.4) + vsi * 0.4) * min 1 (1 - i)
           = (0.48 + 0.4 * vsi) * (1 - i)"
    unfolding m2 by (simp add: field_simps)
qed

lemma scenario_update:
  assumes i: "0 \<le> i" "i \<le> 1"
    and h: "emotional_inertia s1 = i" "emotional_inertia s2 = i"
      "system_activations s2 = system_activations s1"
      "valence (current_affect s1) = - 0.5" "valence (current_affect s2) = 0.0"
      "valence (to_dimensions appraisal) = 0.8"
    and upd: "update_affect s1 appraisal now = Inr s1'" "update_affect s2 appraisal now = Inr s2'"
  shows "(\<exists>si. system_influence_of (system_activations s1) = Inr si \<and>
            valence (current_affect s1') =
              - 0.5 + (0.48 + 0.4 * valence si + 0.5) * (0.4 * (1 - i)) \<and>
            valence (current_affect s2') = (0.48 + 0.4 * valence si) * (1 - i)) \<and>
         valence (current_affect s1') < valence (current_affect s2')"
proof -
  from upd(1) obtain si1 where
    si1: "system_influence_of (system_activations s1) = Inr si1" and
    c1: "current_affect s1' =
           blend (current_affect s1) (blend (to_dimensions appraisal) si1 0.4)
             (min 1 (transition_resistance (emotional_inertia s1)
                       (valence (current_affect s1))
                       (valence (blend (to_dimensions appraisal) si1 0.4))))"
    by (rule update_affect_Inr)
  from upd(2) obtain si2 where
    si2: "system_influence_of (system_activations s2) = Inr si2" and
    c2: "current_affect s2' =
           blend (current_affect s2) (blend (to_dimensions appraisal) si2 0.4)
             (min 1 (transition_resistance (emotional_inertia s2)
                       (valence (current_affect s2))
                       (valence (blend (to_dimensions appraisal) si2 0.4))))"
    by (rule update_affect_Inr)
  from si1 si2 h(3) have same: "si2 = si1" by simp
  define c where "c = valence (blend (to_dimensions appraisal) si1 0.4)"
  have cval: "c = 0.8 * (1 - 0.4) + valence si1 * 0.4"
    unfolding c_def blend_def h(6) [symmetric] by simp
  have "in_affect_bounds si1" by (rule system_influence_of_bounds [OF si1])
  then have "- 1 \<le> valence si1" by (simp add: in_affect_bounds_def)
  then have cpos: "0 < c" unfolding cval by simp
  have r1: "transition_resistance i (- 0.5) c = (1 - i) * 0.4"
    using cpos by (simp add: transition_resistance_contaminated)
  have r2: "transition_resistance i 0.0 c = 1 - i"
    by (simp add: transition_resistance_neutral)
  have "valence (current_affect s1') =
          valence (current_affect s1) *
            (1 - min 1 (transition_resistance (emotional_inertia s1) (valence (current_affect s1)) c)) +
          c * min 1 (transition_resistance (emotional_inertia s1) (valence (current_affect s1)) c)"
    unfolding c1 c_def by (simp add: blend_def)
  then have v1: "valence (current_affect s1') =
              (- 0.5) * (1 - min 1 ((1 - i) * 0.4)) + c * min 1 ((1 - i) * 0.4)"
    unfolding h(1) h(4) r1 .
  have "valence (current_affect s2') =
          valence (current_affect s2) *
            (1 - min 1 (transition_resistance (emotional_inertia s2) (valence (current_affect s2)) c)) +
          c * min 1 (transition_resistance (emotional_inertia s2) (valence (current_affect s2)) c)"
    unfolding c2 same c_def by (simp add: blend_def)
  then have v2: "valence (current_affect s2') = 0 * (1 - min 1 (1 - i)) + c * min 1 (1 - i)"
    unfolding h(2) h(5) r2 by simp
  have lt: "valence (current_affect s1') < valence (current_affect s2')"
    unfolding v1 v2 by (rule scenario_valences [OF i cpos])
  have e1: "valence (current_affect s1') =
              - 0.5 + (0.48 + 0.4 * valence si1 + 0.5) * (0.4 * (1 - i))"
    unfolding v1 cval by (rule scenario_values(1) [OF i])
  have e2: "valence (current_affect s2') = (0.48 + 0.4 * valence si1) * (1 - i)"
    unfolding v2 cval by (rule scenario_values(2) [OF i])
  from si1 e1 e2 lt show ?thesis by blast
qed

subsection \<open>The vector operations\<close>

text \<open>
  C4, as amended. \<^verbatim>\<open>blend\<close> and \<^verbatim>\<open>decay_toward\<close> are plain linear interpolations and
  clamp nothing. What holds is: when both vectors have their three components in
  \<open>[-1, 1]\<close> and the weight (the rate) lies in \<open>[0, 1]\<close>, every component of the returned
  vector lies in \<open>[-1, 1]\<close>.
\<close>

theorem blend_decay_toward_in_bounds:
  assumes "in_affect_bounds a" "in_affect_bounds b" "0 \<le> w" "w \<le> 1"
  shows "in_affect_bounds (blend a b w) \<and> in_affect_bounds (decay_toward a b w)"
  using assms by (simp add: decay_toward_eq_blend blend_in_bounds)

theorem blend_decay_toward_in_bounds_witness:
  "in_affect_bounds (dims 0 0 0) \<and> in_affect_bounds (dims 1 1 1) \<and>
   in_affect_bounds (blend (dims 0 0 0) (dims 1 1 1) (1 / 2)) \<and>
   in_affect_bounds (decay_toward (dims 0 0 0) (dims 1 1 1) (1 / 2))"
proof -
  have a: "in_affect_bounds (dims 0 0 0)" and b: "in_affect_bounds (dims 1 1 1)"
    by (simp_all add: in_affect_bounds_def dims_def)
  from blend_decay_toward_in_bounds [OF a b, of "1 / 2"] a b show ?thesis by simp
qed

text \<open>The claim as stated, for all argument values, fails: with the weight (the rate) \<open>2\<close>
  both operations leave the interval from vectors inside it.\<close>

theorem blend_decay_toward_unclamped_counterexample:
  "\<not> in_affect_bounds (blend (dims 0 0 0) (dims 1 1 1) 2) \<and>
   \<not> in_affect_bounds (decay_toward (dims 0 0 0) (dims 1 1 1) 2)"
  by (simp add: in_affect_bounds_def dims_def blend_def decay_toward_def)

subsection \<open>Affect integration\<close>

text \<open>
  C10. For every state whose current affect lies in \<open>[-1, 1]\<close> on its three axes, whose
  activations lie in \<open>[0, 1]\<close> and whose inertia lies in its declared range \<open>[0, 1]\<close>, and
  for every appraisal: whenever \<^verbatim>\<open>update_affect\<close> returns, the current affect it leaves
  has its three components in \<open>[-1, 1]\<close>; and it does return (no \<^verbatim>\<open>ValueError\<close>) when every
  key of the activation dictionary is the value of a system.
\<close>

theorem update_affect_preserves_affect_bounds:
  assumes "state_in_bounds self" "inertia_in_bounds self"
  shows "(known_systems (system_activations self) \<longrightarrow>
            (\<exists>self'. update_affect self appraisal now = Inr self')) \<and>
         (\<forall>self'. update_affect self appraisal now = Inr self' \<longrightarrow>
            in_affect_bounds (current_affect self'))"
proof (intro conjI impI allI)
  assume "known_systems (system_activations self)"
  then show "\<exists>self'. update_affect self appraisal now = Inr self'"
    by (rule update_affect_known)
next
  fix self'
  assume upd: "update_affect self appraisal now = Inr self'"
  from assms have "in_affect_bounds (current_affect self)" "emotional_inertia self \<le> 1"
    by (simp_all add: state_in_bounds_def inertia_in_bounds_def)
  then show "in_affect_bounds (current_affect self')"
    using upd by (rule update_affect_current_in_bounds)
qed

theorem update_affect_preserves_affect_bounds_witness:
  "state_in_bounds ((state_with (dims 0.9 0.9 0.9) (dims 0 0 0) 0.25)
       \<lparr>system_activations := [(''care'', 0.5), (''rage'', 1)]\<rparr>) \<and>
   inertia_in_bounds ((state_with (dims 0.9 0.9 0.9) (dims 0 0 0) 0.25)
       \<lparr>system_activations := [(''care'', 0.5), (''rage'', 1)]\<rparr>) \<and>
   (\<exists>self'. update_affect ((state_with (dims 0.9 0.9 0.9) (dims 0 0 0) 0.25)
                 \<lparr>system_activations := [(''care'', 0.5), (''rage'', 1)]\<rparr>)
               (appraisal_of_valence 1) 0 = Inr self' \<and>
            in_affect_bounds (current_affect self'))"
proof -
  let ?w = "(state_with (dims 0.9 0.9 0.9) (dims 0 0 0) 0.25)
       \<lparr>system_activations := [(''care'', 0.5), (''rage'', 1)]\<rparr>"
  have h1: "state_in_bounds ?w"
    by (simp add: state_in_bounds_def state_with_def in_affect_bounds_def dims_def
        activations_in_bounds_def)
  have h2: "inertia_in_bounds ?w"
    by (simp add: inertia_in_bounds_def state_with_def)
  have k: "known_systems (system_activations ?w)"
    by (simp add: known_systems_def all_systems_def AffectiveSystem_of_def)
  from update_affect_preserves_affect_bounds [OF h1 h2, of "appraisal_of_valence 1" 0] k h1 h2
  show ?thesis by blast
qed

text \<open>
  C1, as amended. For every inertia \<open>i\<close> in \<open>[0, 1]\<close>:
  \<^item> the scenario of the claim holds: of two states with the same inertia and the same
    activations, one at valence \<open>-0.5\<close> and one at valence \<open>0.0\<close>, updated with the same
    appraisal of target valence \<open>0.8\<close>, the first ends at
    \<open>-0.5 + (c + 0.5) * 0.4 * (1 - i)\<close> and the second at \<open>c * (1 - i)\<close>, where
    \<open>c = 0.48 + 0.4 * v\<close> is the combined target valence and \<open>v\<close> the valence of the system
    influence; so the first ends strictly below the second (and both updates return when
    the activation keys are systems);
  \<^item> whenever \<^verbatim>\<open>update_affect\<close> returns, the current affect it leaves is the blend of the
    old current affect with the combined target, at the weight
    \<open>min 1 (transition_resistance i current_valence target_valence)\<close>;
  \<^item> that weight is \<open>0.4 * (1 - i)\<close> for a state of valence below \<open>-0.3\<close> moving toward a
    positive target and \<open>min 1 (1.3 * (1 - i))\<close> for a state of valence above \<open>0.3\<close> moving
    toward a negative target: the first is never larger than the second, and strictly
    smaller when \<open>i < 1\<close>;
  \<^item> for a current valence in \<open>[-0.3, 0.3]\<close> the weight is \<open>1 - i\<close> whatever the direction.
\<close>

theorem contamination_asymmetry:
  assumes "0 \<le> i" "i \<le> 1"
  shows
    "(emotional_inertia s1 = i \<and> emotional_inertia s2 = i \<and>
      system_activations s2 = system_activations s1 \<and>
      valence (current_affect s1) = - 0.5 \<and> valence (current_affect s2) = 0.0 \<and>
      valence (to_dimensions appraisal) = 0.8
      \<longrightarrow>
        (known_systems (system_activations s1) \<longrightarrow>
           (\<exists>s1' s2'. update_affect s1 appraisal now = Inr s1' \<and>
                      update_affect s2 appraisal now = Inr s2')) \<and>
        (\<forall>s1' s2'. update_affect s1 appraisal now = Inr s1' \<and>
                   update_affect s2 appraisal now = Inr s2' \<longrightarrow>
           (\<exists>si. system_influence_of (system_activations s1) = Inr si \<and>
              valence (current_affect s1') =
                - 0.5 + (0.48 + 0.4 * valence si + 0.5) * (0.4 * (1 - i)) \<and>
              valence (current_affect s2') = (0.48 + 0.4 * valence si) * (1 - i)) \<and>
           valence (current_affect s1') < valence (current_affect s2'))) \<and>
     (emotional_inertia s = i \<and> update_affect s a now = Inr s' \<longrightarrow>
        (\<exists>si. system_influence_of (system_activations s) = Inr si \<and>
           current_affect s' =
             blend (current_affect s) (blend (to_dimensions a) si 0.4)
               (min 1 (transition_resistance i (valence (current_affect s))
                         (valence (blend (to_dimensions a) si 0.4)))))) \<and>
     (cv_neg < - 0.3 \<and> 0 < tv_pos \<and> 0.3 < cv_pos \<and> tv_neg < 0
      \<longrightarrow>
        min 1 (transition_resistance i cv_neg tv_pos) = 0.4 * (1 - i) \<and>
        min 1 (transition_resistance i cv_pos tv_neg) = min 1 (1.3 * (1 - i)) \<and>
        min 1 (transition_resistance i cv_neg tv_pos) \<le> min 1 (transition_resistance i cv_pos tv_neg) \<and>
        (i < 1 \<longrightarrow>
           min 1 (transition_resistance i cv_neg tv_pos) < min 1 (transition_resistance i cv_pos tv_neg))) \<and>
     (- 0.3 \<le> cv \<and> cv \<le> 0.3 \<longrightarrow> min 1 (transition_resistance i cv tv) = 1 - i)"
proof (intro conjI impI allI)
  assume h: "emotional_inertia s1 = i \<and> emotional_inertia s2 = i \<and>
      system_activations s2 = system_activations s1 \<and>
      valence (current_affect s1) = - 0.5 \<and> valence (current_affect s2) = 0.0 \<and>
      valence (to_dimensions appraisal) = 0.8"
  {
    assume k: "known_systems (system_activations s1)"
    with h have "known_systems (system_activations s2)" by simp
    from update_affect_known [OF k] update_affect_known [OF this]
    show "\<exists>s1' s2'. update_affect s1 appraisal now = Inr s1' \<and>
                      update_affect s2 appraisal now = Inr s2'" by blast
  }
  fix s1' s2'
  assume upd: "update_affect s1 appraisal now = Inr s1' \<and>
                   update_affect s2 appraisal now = Inr s2'"
  have both:
    "(\<exists>si. system_influence_of (system_activations s1) = Inr si \<and>
        valence (current_affect s1') =
          - 0.5 + (0.48 + 0.4 * valence si + 0.5) * (0.4 * (1 - i)) \<and>
        valence (current_affect s2') = (0.48 + 0.4 * valence si) * (1 - i)) \<and>
     valence (current_affect s1') < valence (current_affect s2')"
  proof -
    from h have h1: "emotional_inertia s1 = i" and h2: "emotional_inertia s2 = i"
      and h3: "system_activations s2 = system_activations s1"
      and h4: "valence (current_affect s1) = - 0.5" and h5: "valence (current_affect s2) = 0.0"
      and h6: "valence (to_dimensions appraisal) = 0.8"
      by simp_all
    from upd have u1: "update_affect s1 appraisal now = Inr s1'"
      and u2: "update_affect s2 appraisal now = Inr s2'" by simp_all
    show ?thesis by (rule scenario_update [OF assms h1 h2 h3 h4 h5 h6 u1 u2])
  qed
  from both show "\<exists>si. system_influence_of (system_activations s1) = Inr si \<and>
        valence (current_affect s1') =
          - 0.5 + (0.48 + 0.4 * valence si + 0.5) * (0.4 * (1 - i)) \<and>
        valence (current_affect s2') = (0.48 + 0.4 * valence si) * (1 - i)" ..
  from both show "valence (current_affect s1') < valence (current_affect s2')" ..
next
  assume h: "emotional_inertia s = i \<and> update_affect s a now = Inr s'"
  then have upd: "update_affect s a now = Inr s'" and ei: "emotional_inertia s = i" by simp_all
  from upd obtain si where
    "system_influence_of (system_activations s) = Inr si"
    "current_affect s' =
           blend (current_affect s) (blend (to_dimensions a) si 0.4)
             (min 1 (transition_resistance (emotional_inertia s)
                       (valence (current_affect s))
                       (valence (blend (to_dimensions a) si 0.4))))"
    by (rule update_affect_Inr)
  then show "\<exists>si. system_influence_of (system_activations s) = Inr si \<and>
           current_affect s' =
             blend (current_affect s) (blend (to_dimensions a) si 0.4)
               (min 1 (transition_resistance i (valence (current_affect s))
                         (valence (blend (to_dimensions a) si 0.4))))"
    unfolding ei by blast
next
  assume h: "cv_neg < - 0.3 \<and> 0 < tv_pos \<and> 0.3 < cv_pos \<and> tv_neg < 0"
  then show "min 1 (transition_resistance i cv_neg tv_pos) = 0.4 * (1 - i)"
    using assms by (simp add: transition_resistance_contaminated)
  from h show "min 1 (transition_resistance i cv_pos tv_neg) = min 1 (1.3 * (1 - i))"
    by (simp add: transition_resistance_sliding mult.commute)
  from h show "min 1 (transition_resistance i cv_neg tv_pos) \<le> min 1 (transition_resistance i cv_pos tv_neg)"
    using assms by (simp add: transition_resistance_contaminated transition_resistance_sliding)
  assume "i < 1"
  with h show "min 1 (transition_resistance i cv_neg tv_pos) < min 1 (transition_resistance i cv_pos tv_neg)"
    using assms by (simp add: transition_resistance_contaminated transition_resistance_sliding)
next
  assume "- 0.3 \<le> cv \<and> cv \<le> 0.3"
  then show "min 1 (transition_resistance i cv tv) = 1 - i"
    using assms by (simp add: transition_resistance_neutral)
qed

theorem contamination_asymmetry_witness:
  "(\<exists>s1' s2'.
      update_affect (state_with (dims (- 0.5) 0.2 0.1) (dims 0 0 0) 0.25) (appraisal_of_valence 0.8) 0 = Inr s1' \<and>
      update_affect (state_with (dims 0.0 0.2 0.1) (dims 0 0 0) 0.25) (appraisal_of_valence 0.8) 0 = Inr s2' \<and>
      valence (current_affect s1') = - 0.206 \<and>
      valence (current_affect s2') = 0.36 \<and>
      current_affect s1' =
        blend (dims (- 0.5) 0.2 0.1)
          (blend (to_dimensions (appraisal_of_valence 0.8)) AffectiveDimensions_default 0.4) 0.3) \<and>
   min 1 (transition_resistance 0.25 (- 0.5) 0.8) = 0.3 \<and>
   min 1 (transition_resistance 0.25 0.5 (- 0.8)) = 0.975 \<and>
   min 1 (transition_resistance 0.25 (- 0.2) 0.8) = 0.75"
proof -
  let ?s1 = "state_with (dims (- 0.5) 0.2 0.1) (dims 0 0 0) 0.25"
  let ?s2 = "state_with (dims 0.0 0.2 0.1) (dims 0 0 0) 0.25"
  let ?a = "appraisal_of_valence 0.8"
  have i: "(0::real) \<le> 0.25" "(0.25::real) \<le> 1" by simp_all
  note T = contamination_asymmetry [OF i, where ?s1.0 = ?s1 and ?s2.0 = ?s2 and appraisal = ?a
      and now = 0 and s = ?s1 and a = ?a and cv_neg = "- 0.5" and tv_pos = "0.8"
      and cv_pos = "0.5" and tv_neg = "- 0.8" and cv = "- 0.2" and tv = "0.8"]
  have h: "emotional_inertia ?s1 = 0.25 \<and> emotional_inertia ?s2 = 0.25 \<and>
      system_activations ?s2 = system_activations ?s1 \<and>
      valence (current_affect ?s1) = - 0.5 \<and> valence (current_affect ?s2) = 0.0 \<and>
      valence (to_dimensions ?a) = 0.8"
    by (simp add: state_with_def dims_def to_dimensions_appraisal_of_valence clamp_unit_def)
  have k: "known_systems (system_activations ?s1)"
    by (simp add: state_with_def known_all_systems)
  have zero: "system_influence_of (system_activations ?s1) = Inr AffectiveDimensions_default"
    by (simp add: state_with_def system_influence_of_zero)
  from T h k obtain s1' s2' where
    u1: "update_affect ?s1 ?a 0 = Inr s1'" and u2: "update_affect ?s2 ?a 0 = Inr s2'"
    by blast
  from T h u1 u2 obtain si where
    si: "system_influence_of (system_activations ?s1) = Inr si" and
    v1: "valence (current_affect s1') =
           - 0.5 + (0.48 + 0.4 * valence si + 0.5) * (0.4 * (1 - 0.25))" and
    v2: "valence (current_affect s2') = (0.48 + 0.4 * valence si) * (1 - 0.25)"
    by blast
  from si zero have si0: "si = AffectiveDimensions_default" by simp
  have e1: "valence (current_affect s1') = - 0.206"
    unfolding v1 si0 by (simp add: AffectiveDimensions_default_def)
  have e2: "valence (current_affect s2') = 0.36"
    unfolding v2 si0 by (simp add: AffectiveDimensions_default_def)
  have ei: "emotional_inertia ?s1 = 0.25" by (simp add: state_with_def)
  from conjunct1 [OF conjunct2 [OF T [where s' = s1']]] ei u1 obtain sj where
    sj: "system_influence_of (system_activations ?s1) = Inr sj" and
    c1: "current_affect s1' =
           blend (current_affect ?s1) (blend (to_dimensions ?a) sj 0.4)
             (min 1 (transition_resistance 0.25 (valence (current_affect ?s1))
                       (valence (blend (to_dimensions ?a) sj 0.4))))"
    by blast
  from sj zero have sj0: "sj = AffectiveDimensions_default" by simp
  have w: "min 1 (transition_resistance 0.25 (valence (dims (- 0.5) 0.2 0.1))
                       (valence (blend (to_dimensions ?a) AffectiveDimensions_default 0.4))) = 0.3"
    by (simp add: state_with_def dims_def blend_def to_dimensions_appraisal_of_valence
        clamp_unit_def AffectiveDimensions_default_def transition_resistance_def)
  have cur: "current_affect ?s1 = dims (- 0.5) 0.2 0.1" by (simp add: state_with_def)
  have c1': "current_affect s1' =
        blend (dims (- 0.5) 0.2 0.1)
          (blend (to_dimensions ?a) AffectiveDimensions_default 0.4) 0.3"
    using c1 unfolding sj0 cur w .
  have g: "(- 0.5::real) < - 0.3 \<and> (0::real) < 0.8 \<and> (0.3::real) < 0.5 \<and> (- 0.8::real) < 0" by simp
  have n: "(- 0.3::real) \<le> - 0.2 \<and> (- 0.2::real) \<le> 0.3" by simp
  from T g have r1: "min 1 (transition_resistance 0.25 (- 0.5) 0.8) = 0.4 * (1 - 0.25)"
    and r2: "min 1 (transition_resistance 0.25 0.5 (- 0.8)) = min 1 (1.3 * (1 - 0.25))"
    by blast+
  from T n have r3: "min 1 (transition_resistance 0.25 (- 0.2) 0.8) = 1 - 0.25" by blast
  have "min 1 (transition_resistance 0.25 (- 0.5) 0.8) = 0.3" unfolding r1 by simp
  moreover have "min 1 (transition_resistance 0.25 0.5 (- 0.8)) = 0.975" unfolding r2 by simp
  moreover have "min 1 (transition_resistance 0.25 (- 0.2) 0.8) = 0.75" unfolding r3 by simp
  ultimately show ?thesis using u1 u2 e1 e2 c1' by blast
qed

text \<open>The general half of the claim as stated, for every valid input, fails. At inertia
  \<open>0.3\<close> the state at valence \<open>-0.2\<close> moves up by \<open>0.476\<close> toward the target \<open>0.8\<close>, and the
  state at valence \<open>0.2\<close> moves down by the same \<open>0.476\<close> toward the target \<open>-0.8\<close>; at
  inertia \<open>1\<close> neither the state at \<open>-0.5\<close> nor the state at \<open>0.5\<close> moves at all.\<close>

theorem contamination_asymmetry_counterexample:
  "map_sum id (valence \<circ> current_affect)
     (update_affect (state_with (dims (- 0.2) 0 0) (dims 0 0 0) 0.3) (appraisal_of_valence 0.8) 0)
     = Inr (- 0.2 + 0.476) \<and>
   map_sum id (valence \<circ> current_affect)
     (update_affect (state_with (dims 0.2 0 0) (dims 0 0 0) 0.3) (appraisal_of_valence (- 0.8)) 0)
     = Inr (0.2 - 0.476) \<and>
   map_sum id (valence \<circ> current_affect)
     (update_affect (state_with (dims (- 0.5) 0 0) (dims 0 0 0) 1) (appraisal_of_valence 0.8) 0)
     = Inr (- 0.5 + 0) \<and>
   map_sum id (valence \<circ> current_affect)
     (update_affect (state_with (dims 0.5 0 0) (dims 0 0 0) 1) (appraisal_of_valence (- 0.8)) 0)
     = Inr (0.5 - 0)"
  by (simp add: update_affect_state_with blend_def to_dimensions_appraisal_of_valence clamp_unit_def
      transition_resistance_def dims_def AffectiveDimensions_default_def)

subsection \<open>Emotion labelling\<close>

text \<open>The scan raises the error of the first entry whose distance raises. When no
  distance raises it keeps the first entry whose computed distance is a least number: every
  entry before the one it returns is strictly farther, no entry after it is nearer. When
  no computed distance is a number it keeps its initial state.\<close>

lemma fp_less_simps [simp]:
  "fp_less None y = False"
  "fp_less (Some a) None = True"
  "fp_less (Some a) (Some b) = (a < b)"
  by (simp_all add: fp_less_def)


















text \<open>Where two entries are at the same exact distance the machine's rounding decides:
  \<open>GRATITUDE\<close> and \<open>AWE\<close> are equally far from \<open>(0.6, 0.3, -0.2)\<close> in exact arithmetic, so
  the label there is \<open>GRATITUDE\<close>, the earlier entry, only on a machine that computes the
  distance to \<open>GRATITUDE\<close> no larger than the distance to \<open>AWE\<close>.\<close>

lemma exact_tie_GRATITUDE_AWE:
  "distance_to (dims 0.6 0.3 (- 0.2)) (dims 0.8 0.3 (- 0.1)) =
   distance_to (dims 0.6 0.3 (- 0.2)) (dims 0.6 0.5 (- 0.3))"
  by (simp add: distance_to_def dims_def power2_eq_square)








subsection \<open>Appraisal\<close>

text \<open>A pattern none of whose keywords occurs leaves the loop state as it is.\<close>

lemma lower_scenario_A: "lower scenario_A_message = ''thank you so much, i am so grateful''"
  by code_simp

lemma scenario_A_counts:
  "map (\<lambda>p. count_matches (pattern_keywords p) ''thank you so much, i am so grateful'') APPRAISAL_PATTERNS
     = [0, 0, 0, 0, 0, 0, 2, 0, 0, 0, 0, 0, 0, 0, 0, 0, 0, 0]"
  by code_simp

lemma appraise_pattern_skip:
  "count_matches (pattern_keywords p) ml = 0 \<Longrightarrow> appraise_pattern ml st p = st"
  by (simp add: appraise_pattern_def Let_def)

lemma foldl_appraise_no_match:
  "list_all (\<lambda>p. count_matches (pattern_keywords p) ml = 0) ps \<Longrightarrow>
     foldl (appraise_pattern ml) st ps = st"
  by (induction ps arbitrary: st) (simp_all add: appraise_pattern_skip)

lemma count_matches_zero:
  "list_all (\<lambda>kw. \<not> sublist kw ml) kws \<Longrightarrow> count_matches kws ml = 0"
  by (induction kws) (simp_all add: count_matches_def)

lemma clamp_all_default: "clamp_all AppraisalResult_default = AppraisalResult_default"
  by (simp add: clamp_all_def AppraisalResult_default_def)

lemma no_keyword_in_empty: "no_keyword_in ''''"
  by code_simp

lemma appraise_message_no_match:
  assumes "no_keyword_in message"
  shows "appraise_message self message =
           (AppraisalResult_default, self\<lparr>last_appraisal := Some AppraisalResult_default\<rparr>)"
proof -
  from assms have "list_all (\<lambda>p. count_matches (pattern_keywords p) (lower message) = 0)
                     APPRAISAL_PATTERNS"
    unfolding no_keyword_in_def by (rule list.pred_mono_strong) (simp add: count_matches_zero)
  then have "foldl (appraise_pattern (lower message)) (AppraisalResult_default, self)
               APPRAISAL_PATTERNS = (AppraisalResult_default, self)"
    by (rule foldl_appraise_no_match)
  then show ?thesis by (simp add: appraise_message_def Let_def clamp_all_default)
qed

lemma clamp_all_in_bounds: "appraisal_in_bounds (clamp_all a)"
  by (simp add: appraisal_in_bounds_def clamp_all_def)

lemma appraise_message_clamped: "appraisal_in_bounds (fst (appraise_message self message))"
  by (simp add: appraise_message_def Let_def clamp_all_in_bounds)

text \<open>
  C8. \<^verbatim>\<open>appraise_message\<close> has no failing branch: it is a total function on texts, and
  for every text the result it returns has its ten fields in \<open>[-1, 1]\<close>. For the empty
  text, and for every text in whose lowered form no keyword of any pattern occurs, it
  returns the all-zero \<^verbatim>\<open>AppraisalResult\<close>, and the state it leaves differs from the one it
  was given in \<^verbatim>\<open>last_appraisal\<close> only.
\<close>

theorem appraise_message_no_match_zero:
  "appraisal_in_bounds (fst (appraise_message self message)) \<and>
   appraise_message self '''' =
     (AppraisalResult_default, self\<lparr>last_appraisal := Some AppraisalResult_default\<rparr>) \<and>
   (no_keyword_in message \<longrightarrow>
      appraise_message self message =
        (AppraisalResult_default, self\<lparr>last_appraisal := Some AppraisalResult_default\<rparr>))"
  using appraise_message_clamped [of self message]
        appraise_message_no_match [OF no_keyword_in_empty] appraise_message_no_match
  by blast

lemma no_keyword_in_example: "no_keyword_in ''Zzz... 42''"
  by code_simp

theorem appraise_message_no_match_zero_witness:
  "no_keyword_in ''Zzz... 42'' \<and>
   fst (appraise_message (state_with (dims 0.15 0.1 0.0) (dims 0.15 0.1 0.0) 0.25) ''Zzz... 42'')
     = AppraisalResult_default \<and>
   system_activations
     (snd (appraise_message (state_with (dims 0.15 0.1 0.0) (dims 0.15 0.1 0.0) 0.25) ''Zzz... 42''))
     = system_activations (state_with (dims 0.15 0.1 0.0) (dims 0.15 0.1 0.0) 0.25)"
  using appraise_message_no_match_zero
          [of "state_with (dims 0.15 0.1 0.0) (dims 0.15 0.1 0.0) 0.25" "''Zzz... 42''"]
        no_keyword_in_example
  by simp

lemma dict_get_dict_set: "dict_get (dict_set d k v) k dflt = v"
  by (induction d) (auto simp add: dict_get_def)

lemma scenario_A_fold:
  "foldl (appraise_pattern ''thank you so much, i am so grateful'') st APPRAISAL_PATTERNS =
     appraise_pattern ''thank you so much, i am so grateful'' st (APPRAISAL_PATTERNS ! 6)"
proof -
  note c = scenario_A_counts [unfolded APPRAISAL_PATTERNS_def, simplified]
  show ?thesis
    unfolding APPRAISAL_PATTERNS_def
    by (simp add: c appraise_pattern_skip)
qed


lemma gratitude_pattern:
  "APPRAISAL_PATTERNS ! 6 =
     \<lparr>pattern_keywords = [''thank'', ''grateful'', ''appreciate'', ''thanks'', ''blessing'',
                 ''grazie'', ''grato'', ''apprezzo'', ''benedizione'', ''gentile'',
                 ''kind'', ''generous'', ''thoughtful''],
      appraisal_effects = [(Pleasantness, 0.8), (External_standards, 0.6),
                          (Goal_conduciveness, 0.5), (Internal_standards, 0.4)],
      system_activation = Some CARE\<rparr>"
  by (simp add: APPRAISAL_PATTERNS_def)

lemma gratitude_count:
  "count_matches [''thank'', ''grateful'', ''appreciate'', ''thanks'', ''blessing'',
                 ''grazie'', ''grato'', ''apprezzo'', ''benedizione'', ''gentile'',
                 ''kind'', ''generous'', ''thoughtful''] ''thank you so much, i am so grateful'' = 2"
  by code_simp

lemma scenario_A_step:
  "appraise_pattern ''thank you so much, i am so grateful'' (AppraisalResult_default, self)
     (APPRAISAL_PATTERNS ! 6) =
   (AppraisalResult_default\<lparr>pleasantness := 0.48, goal_conduciveness := 0.3,
      internal_standards := 0.24, external_standards := 0.36\<rparr>,
    activate_system self CARE 0.3)"
  unfolding gratitude_pattern
  by (simp add: appraise_pattern_def gratitude_count pattern_weight_def is_negative_pattern_def
      dict_get_def apply_effects_def AppraisalResult_default_def Let_def)

lemma scenario_A_result:
  "appraise_message self scenario_A_message =
     (AppraisalResult_default\<lparr>pleasantness := 0.48, goal_conduciveness := 0.3,
        internal_standards := 0.24, external_standards := 0.36\<rparr>,
      (activate_system self CARE 0.3)
        \<lparr>last_appraisal := Some (AppraisalResult_default\<lparr>pleasantness := 0.48,
            goal_conduciveness := 0.3, internal_standards := 0.24,
            external_standards := 0.36\<rparr>)\<rparr>)"
  unfolding appraise_message_def Let_def lower_scenario_A scenario_A_fold scenario_A_step
  by (simp add: clamp_all_def AppraisalResult_default_def)

lemma care_after_activate:
  "dict_get (system_activations (activate_system self CARE intensity)) ''care'' 0 =
     max 0 (min 1 (dict_get (system_activations self) ''care'' 0 +
                   (intensity - dict_get (system_activations self) ''care'' 0) *
                   (1 - emotional_inertia self)))"
  by (simp add: activate_system_def Let_def dict_get_dict_set)

lemma activation_rises:
  fixes before i :: real
  assumes "before < 0.3" "i < 1"
  shows "before < max 0 (min 1 (before + (0.3 - before) * (1 - i)))"
proof -
  have "0 < (0.3 - before) * (1 - i)" using assms by simp
  then have "before < before + (0.3 - before) * (1 - i)" by simp
  moreover have "before < 1" using assms by simp
  ultimately show ?thesis by simp
qed

lemma activation_falls:
  fixes before i :: real
  assumes "0.3 \<le> before" "i \<le> 1"
  shows "max 0 (min 1 (before + (0.3 - before) * (1 - i))) \<le> before"
proof -
  have "(0.3 - before) * (1 - i) \<le> 0" using assms by (simp add: mult_nonpos_nonneg)
  then have "before + (0.3 - before) * (1 - i) \<le> before" by simp
  moreover have "0 \<le> before" using assms by simp
  ultimately show ?thesis by simp
qed

lemma scenario_A_care:
  "dict_get (system_activations (snd (appraise_message self scenario_A_message))) ''care'' 0 =
     max 0 (min 1 (dict_get (system_activations self) ''care'' 0 +
                   (0.3 - dict_get (system_activations self) ''care'' 0) *
                   (1 - emotional_inertia self)))"
  by (simp add: scenario_A_result care_after_activate)

lemma scenario_A_pleasantness:
  "pleasantness (fst (appraise_message self scenario_A_message)) = 0.48"
  by (simp add: scenario_A_result AppraisalResult_default_def)

text \<open>
  C6, as amended. On every state, the appraisal of
  \<open>''Thank you so much, I am so grateful''\<close> matches the gratitude pattern twice and nothing
  else, so it returns pleasantness \<open>0.48\<close>, goal conduciveness \<open>0.3\<close>, internal standards
  \<open>0.24\<close>, external standards \<open>0.36\<close> and zero elsewhere; and it moves the CARE activation
  toward the stimulus \<open>0.3\<close>: the activation after the call is
  \<open>max(0, min(1, before + (0.3 - before) * (1 - inertia)))\<close>, strictly above the one before
  when \<open>before < 0.3\<close> and \<open>inertia < 1\<close>, and not above it when \<open>before \<ge> 0.3\<close> and
  \<open>inertia \<le> 1\<close>.
\<close>

theorem scenario_A_appraisal:
  "fst (appraise_message self scenario_A_message) =
     AppraisalResult_default\<lparr>pleasantness := 0.48, goal_conduciveness := 0.3,
       internal_standards := 0.24, external_standards := 0.36\<rparr> \<and>
   dict_get (system_activations (snd (appraise_message self scenario_A_message))) ''care'' 0 =
     max 0 (min 1 (dict_get (system_activations self) ''care'' 0 +
                   (0.3 - dict_get (system_activations self) ''care'' 0) *
                   (1 - emotional_inertia self))) \<and>
   (dict_get (system_activations self) ''care'' 0 < 0.3 \<and> emotional_inertia self < 1 \<longrightarrow>
      dict_get (system_activations self) ''care'' 0 <
        dict_get (system_activations (snd (appraise_message self scenario_A_message))) ''care'' 0) \<and>
   (0.3 \<le> dict_get (system_activations self) ''care'' 0 \<and> emotional_inertia self \<le> 1 \<longrightarrow>
      dict_get (system_activations (snd (appraise_message self scenario_A_message))) ''care'' 0
        \<le> dict_get (system_activations self) ''care'' 0)"
proof -
  note after = scenario_A_care [of self]
  have rises: "dict_get (system_activations self) ''care'' 0 < 0.3 \<and> emotional_inertia self < 1 \<longrightarrow>
      dict_get (system_activations self) ''care'' 0 <
        dict_get (system_activations (snd (appraise_message self scenario_A_message))) ''care'' 0"
    unfolding after using activation_rises by blast
  have falls: "0.3 \<le> dict_get (system_activations self) ''care'' 0 \<and> emotional_inertia self \<le> 1 \<longrightarrow>
      dict_get (system_activations (snd (appraise_message self scenario_A_message))) ''care'' 0
        \<le> dict_get (system_activations self) ''care'' 0"
    unfolding after using activation_falls by blast
  have "fst (appraise_message self scenario_A_message) =
     AppraisalResult_default\<lparr>pleasantness := 0.48, goal_conduciveness := 0.3,
       internal_standards := 0.24, external_standards := 0.36\<rparr>"
    by (simp add: scenario_A_result)
  with after rises falls show ?thesis by blast
qed

theorem scenario_A_appraisal_witness:
  "pleasantness (fst (appraise_message (state_with (dims 0.15 0.1 0.0) (dims 0.15 0.1 0.0) 0.25)
       scenario_A_message)) = 0.48 \<and>
   dict_get (system_activations (state_with (dims 0.15 0.1 0.0) (dims 0.15 0.1 0.0) 0.25)) ''care'' 0 = 0 \<and>
   dict_get (system_activations (snd (appraise_message
       (state_with (dims 0.15 0.1 0.0) (dims 0.15 0.1 0.0) 0.25) scenario_A_message))) ''care'' 0
     = 0.225"
proof -
  let ?s = "state_with (dims 0.15 0.1 0.0) (dims 0.15 0.1 0.0) 0.25"
  have before: "dict_get (system_activations ?s) ''care'' 0 = 0"
    by (simp add: state_with_def all_systems_def dict_get_def)
  have inertia: "emotional_inertia ?s = 0.25"
    by (simp add: state_with_def)
  from scenario_A_appraisal [of ?s] show ?thesis
    unfolding before inertia by (simp add: AppraisalResult_default_def)
qed

text \<open>The claim as stated fails on both counts: on the state the factory builds by
  default the pleasantness \<open>0.48\<close> is not above \<open>0.5\<close>, and from a CARE activation of \<open>0.9\<close>
  the call lowers the activation (to \<open>0.45\<close>).\<close>

theorem scenario_A_counterexample:
  "\<not> 0.5 < pleasantness (fst (appraise_message
       (state_with (dims 0.15 0.1 0.0) (dims 0.15 0.1 0.0) 0.25) scenario_A_message)) \<and>
   \<not> dict_get (system_activations
         ((state_with (dims 0.15 0.1 0.0) (dims 0.15 0.1 0.0) 0.25)
            \<lparr>system_activations := [(''care'', 0.9)]\<rparr>)) ''care'' 0
       < dict_get (system_activations (snd (appraise_message
           ((state_with (dims 0.15 0.1 0.0) (dims 0.15 0.1 0.0) 0.25)
              \<lparr>system_activations := [(''care'', 0.9)]\<rparr>) scenario_A_message))) ''care'' 0"
  unfolding scenario_A_care scenario_A_pleasantness
  by (simp add: state_with_def dict_get_def)

subsection \<open>Construction\<close>

text \<open>
  C7, as amended. \<^verbatim>\<open>create_advanced_emotional_state\<close> is rejected (with a validation
  error) exactly when the inertia lies outside \<open>[0, 1]\<close>. With an inertia inside it returns
  a state whose baseline and current affect are the three given baseline values as they
  are: they are neither checked against \<open>[-1, 1]\<close> nor clamped.
\<close>

theorem create_validates_inertia_only:
  "(create_advanced_emotional_state cid bv ba bd inertia now = Inl ValidationError)
     = (inertia < 0 \<or> 1 < inertia) \<and>
   (0 \<le> inertia \<and> inertia \<le> 1 \<longrightarrow>
      (\<exists>self. create_advanced_emotional_state cid bv ba bd inertia now = Inr self \<and>
         baseline_affect self = \<lparr>valence = bv, arousal = ba, dominance = bd\<rparr> \<and>
         current_affect self = \<lparr>valence = bv, arousal = ba, dominance = bd\<rparr> \<and>
         emotional_inertia self = inertia))"
  by (auto simp add: create_advanced_emotional_state_def new_AdvancedEmotionalState_def Let_def)

theorem create_validates_inertia_only_witness:
  "create_advanced_emotional_state ''c'' 0.15 0.1 0.0 1.5 0 = Inl ValidationError \<and>
   (\<exists>self. create_advanced_emotional_state ''c'' 0.15 0.1 0.0 0.25 0 = Inr self \<and>
      baseline_affect self = \<lparr>valence = 0.15, arousal = 0.1, dominance = 0.0\<rparr> \<and>
      current_affect self = \<lparr>valence = 0.15, arousal = 0.1, dominance = 0.0\<rparr> \<and>
      emotional_inertia self = 0.25)"
  using create_validates_inertia_only [of "''c''" "0.15" "0.1" "0.0" "1.5" 0]
        create_validates_inertia_only [of "''c''" "0.15" "0.1" "0.0" "0.25" 0]
  by simp

text \<open>The claim as stated fails: a baseline of \<open>(5, -3, 2)\<close> is accepted.\<close>

theorem create_accepts_baseline_counterexample:
  "create_advanced_emotional_state ''c'' 5 (- 3) 2 0.25 0 =
     Inr (state_with (dims 5 (- 3) 2) (dims 5 (- 3) 2) 0.25)"
  by (simp add: create_advanced_emotional_state_def new_AdvancedEmotionalState_def Let_def
      state_with_def dims_def)

subsection \<open>Homeostatic decay\<close>

text \<open>After \<^verbatim>\<open>decay_toward\<close> with rate \<open>r\<close> the offset from the baseline is the old offset
  scaled by \<open>1 - r\<close> on every axis, so the distance is scaled by \<open>|1 - r|\<close>.\<close>

lemma sum_squares_scaled:
  fixes k x y z :: real
  shows "(k * x)\<^sup>2 + (k * y)\<^sup>2 + (k * z)\<^sup>2 = k\<^sup>2 * (x\<^sup>2 + y\<^sup>2 + z\<^sup>2)"
  by (simp add: power_mult_distrib distrib_left)

lemma distance_decay_toward:
  "distance_to (decay_toward x b r) b = \<bar>1 - r\<bar> * distance_to x b"
proof -
  have v: "valence (decay_toward x b r) - valence b = (1 - r) * (valence x - valence b)"
    and a: "arousal (decay_toward x b r) - arousal b = (1 - r) * (arousal x - arousal b)"
    and d: "dominance (decay_toward x b r) - dominance b = (1 - r) * (dominance x - dominance b)"
    by (simp_all add: decay_toward_def algebra_simps)
  show ?thesis
    unfolding distance_to_def v a d sum_squares_scaled
    by (simp add: real_sqrt_mult)
qed

lemma decay_current [simp]:
  "current_affect (decay self now secs) =
     decay_toward (current_affect self) (baseline_affect self)
       (decay_rate_of (current_affect self)
          (case secs of None \<Rightarrow> now - last_update self | Some t \<Rightarrow> t))"
  by (simp add: decay_def Let_def)

lemma decay_baseline [simp]: "baseline_affect (decay self now secs) = baseline_affect self"
  by (simp add: decay_def Let_def)

lemma decay_rate_negative:
  assumes "valence c < - 0.2" "0 < secs"
  shows "0 < decay_rate_of c secs" and "decay_rate_of c secs \<le> 0.05 * (secs / 60) * 0.4"
proof -
  define af where "af = 1 + max 0 (arousal c) * 0.5"
  have af: "1 \<le> af" by (simp add: af_def)
  have r: "decay_rate_of c secs = 0.05 * (secs / 60) * 0.4 / af"
    using assms by (simp add: decay_rate_of_def af_def Let_def)
  have num: "0 < 0.05 * (secs / 60) * 0.4" using assms by simp
  show "0 < decay_rate_of c secs" unfolding r using num af by simp
  have "0.05 * (secs / 60) * 0.4 / af \<le> 0.05 * (secs / 60) * 0.4 / 1"
    by (rule divide_left_mono) (use num af in simp_all)
  then show "decay_rate_of c secs \<le> 0.05 * (secs / 60) * 0.4" unfolding r by simp
qed

lemma decay_rate_positive:
  assumes "0.2 < valence c"
  shows "decay_rate_of c secs = 0.05 * (secs / 60) * 1.5"
  using assms by (simp add: decay_rate_of_def Let_def)

lemma distance_to_offsets:
  fixes bv :: real
  assumes "0 \<le> bv"
  shows "sqrt ((0.5 - bv)\<^sup>2 + A + D) \<le> sqrt ((- 0.5 - bv)\<^sup>2 + A + D)"
proof -
  have "(0.5 - bv)\<^sup>2 \<le> (- 0.5 - bv)\<^sup>2"
    using assms by (simp add: power2_eq_square algebra_simps)
  then show ?thesis by simp
qed

lemma distance_to_valence_only:
  "arousal a = arousal b \<Longrightarrow> dominance a = dominance b \<Longrightarrow>
     distance_to a b = \<bar>valence a - valence b\<bar>"
  by (simp add: distance_to_def)

text \<open>
  C5, as amended. For two states with the same baseline whose valence is not negative,
  equal arousal and dominance, and valences \<open>-0.5\<close> and \<open>+0.5\<close>, decay with the same elapsed
  time, more than \<open>0\<close> and at most \<open>800\<close> seconds, leaves the negative state strictly
  farther from the baseline than the positive state.
\<close>

theorem decay_negativity_bias:
  assumes base: "baseline_affect sN = baseline_affect sP" "0 \<le> valence (baseline_affect sN)"
    and same: "arousal (current_affect sN) = arousal (current_affect sP)"
              "dominance (current_affect sN) = dominance (current_affect sP)"
    and val: "valence (current_affect sN) = - 0.5" "valence (current_affect sP) = 0.5"
    and secs: "0 < secs" "secs \<le> 800"
  shows "distance_to (current_affect (decay sP now (Some secs)))
                     (baseline_affect (decay sP now (Some secs)))
         < distance_to (current_affect (decay sN now (Some secs)))
                       (baseline_affect (decay sN now (Some secs)))"
proof -
  define rN where "rN = decay_rate_of (current_affect sN) secs"
  define rP where "rP = decay_rate_of (current_affect sP) secs"
  define DN where "DN = distance_to (current_affect sN) (baseline_affect sN)"
  define DP where "DP = distance_to (current_affect sP) (baseline_affect sP)"
  have rP: "rP = 0.05 * (secs / 60) * 1.5"
    unfolding rP_def by (rule decay_rate_positive) (simp add: val)
  have nv: "valence (current_affect sN) < - 0.2" by (simp add: val)
  have rN: "0 < rN" "rN \<le> 0.05 * (secs / 60) * 0.4"
    unfolding rN_def by (rule decay_rate_negative [OF nv secs(1)])+
  have lt: "rN < rP" using rN secs unfolding rP by simp
  have le1: "rP \<le> 1" using secs unfolding rP by simp
  have DPN: "DP \<le> DN"
    unfolding DP_def DN_def distance_to_def val same base(1) [symmetric]
    using distance_to_offsets [OF base(2)] by (simp add: add.assoc)
  have "0 < (- 0.5 - valence (baseline_affect sN))\<^sup>2" using base(2) by simp
  then have "0 < (valence (current_affect sN) - valence (baseline_affect sN))\<^sup>2 +
               (arousal (current_affect sN) - arousal (baseline_affect sN))\<^sup>2 +
               (dominance (current_affect sN) - dominance (baseline_affect sN))\<^sup>2"
    unfolding val by (simp add: add_pos_nonneg)
  then have DNpos: "0 < DN" unfolding DN_def distance_to_def by simp
  have "0 \<le> DP" by (simp add: DP_def distance_to_def)
  have "(1 - rP) * DP \<le> (1 - rP) * DN"
    by (rule mult_left_mono [OF DPN]) (use le1 in simp)
  also have "\<dots> < (1 - rN) * DN"
    by (rule mult_strict_right_mono) (use lt DNpos in simp_all)
  finally have "\<bar>1 - rP\<bar> * DP < \<bar>1 - rN\<bar> * DN"
    using le1 lt by simp
  then show ?thesis
    by (simp add: distance_decay_toward rN_def rP_def DN_def DP_def)
qed

theorem decay_negativity_bias_witness:
  "distance_to (current_affect (decay (state_with (dims 0.5 0.2 0.1) (dims 0.15 0.1 0.0) 0.25) 0 (Some 60)))
               (baseline_affect (decay (state_with (dims 0.5 0.2 0.1) (dims 0.15 0.1 0.0) 0.25) 0 (Some 60)))
   < distance_to (current_affect (decay (state_with (dims (- 0.5) 0.2 0.1) (dims 0.15 0.1 0.0) 0.25) 0 (Some 60)))
                 (baseline_affect (decay (state_with (dims (- 0.5) 0.2 0.1) (dims 0.15 0.1 0.0) 0.25) 0 (Some 60)))"
  by (rule decay_negativity_bias) (simp_all add: state_with_def dims_def)

text \<open>The claim as stated, for any common baseline and any elapsed time, fails: with the
  baseline valence \<open>-0.3\<close> the negative state is the nearer one after a minute, and with
  the baseline \<open>(0, 0, 0)\<close> and no time elapsed the two distances are equal.\<close>

theorem decay_negativity_bias_counterexample:
  "distance_to (current_affect (decay (state_with (dims (- 0.5) 0 0) (dims (- 0.3) 0 0) 0.25) 0 (Some 60)))
               (baseline_affect (decay (state_with (dims (- 0.5) 0 0) (dims (- 0.3) 0 0) 0.25) 0 (Some 60)))
   < distance_to (current_affect (decay (state_with (dims 0.5 0 0) (dims (- 0.3) 0 0) 0.25) 0 (Some 60)))
                 (baseline_affect (decay (state_with (dims 0.5 0 0) (dims (- 0.3) 0 0) 0.25) 0 (Some 60))) \<and>
   distance_to (current_affect (decay (state_with (dims (- 0.5) 0 0) (dims 0 0 0) 0.25) 0 (Some 0)))
               (baseline_affect (decay (state_with (dims (- 0.5) 0 0) (dims 0 0 0) 0.25) 0 (Some 0)))
   = distance_to (current_affect (decay (state_with (dims 0.5 0 0) (dims 0 0 0) 0.25) 0 (Some 0)))
                 (baseline_affect (decay (state_with (dims 0.5 0 0) (dims 0 0 0) 0.25) 0 (Some 0)))"
  by (simp add: distance_decay_toward distance_to_valence_only state_with_def dims_def
      decay_rate_of_def)

text \<open>Up to \<open>800\<close> elapsed seconds every branch of the rate selection yields a rate in
  \<open>[0, 1]\<close>; then decay approaches the baseline without passing it and keeps every value
  in its interval. \<^verbatim>\<open>decay_toward\<close> itself is monotone for every rate in \<open>(0, 1]\<close>.\<close>

lemma decay_rate_unit:
  assumes "0 \<le> secs" "secs \<le> 800"
  shows "0 \<le> decay_rate_of c secs \<and> decay_rate_of c secs \<le> 1"
proof -
  define af where "af = 1 + max 0 (arousal c) * 0.5"
  have af: "1 \<le> af" by (simp add: af_def)
  have num: "0 \<le> 0.05 * (secs / 60) * 0.4" "0.05 * (secs / 60) * 0.4 \<le> 1"
    using assms by simp_all
  have "0.05 * (secs / 60) * 0.4 / af \<le> 0.05 * (secs / 60) * 0.4 / 1"
    by (rule divide_left_mono) (use num af in simp_all)
  then have neg: "0 \<le> 0.05 * (secs / 60) * 0.4 / af \<and> 0.05 * (secs / 60) * 0.4 / af \<le> 1"
    using num af by simp
  show ?thesis
    using assms neg by (simp add: decay_rate_of_def Let_def af_def)
qed

lemma decay_toward_monotone:
  assumes "0 < rate" "rate \<le> 1"
  shows "distance_to (decay_toward x baseline rate) baseline \<le> distance_to x baseline"
proof -
  have "\<bar>1 - rate\<bar> \<le> 1" using assms by simp
  then have "\<bar>1 - rate\<bar> * distance_to x baseline \<le> 1 * distance_to x baseline"
    by (rule mult_right_mono) (simp add: distance_to_def)
  then show ?thesis by (simp add: distance_decay_toward)
qed

lemma decay_monotone_within_800:
  assumes "0 \<le> secs" "secs \<le> 800"
  shows "distance_to (current_affect (decay self now (Some secs))) (baseline_affect self)
           \<le> distance_to (current_affect self) (baseline_affect self)"
proof -
  from decay_rate_unit [OF assms, of "current_affect self"]
  have "\<bar>1 - decay_rate_of (current_affect self) secs\<bar> \<le> 1" by simp
  then have "\<bar>1 - decay_rate_of (current_affect self) secs\<bar> *
               distance_to (current_affect self) (baseline_affect self)
             \<le> 1 * distance_to (current_affect self) (baseline_affect self)"
    by (rule mult_right_mono) (simp add: distance_to_def)
  then show ?thesis by (simp add: distance_decay_toward)
qed

lemma decay_system_in_bounds:
  assumes "0 \<le> r" "r \<le> 1" "0 \<le> snd item \<and> snd item \<le> 1"
  shows "0 \<le> snd (decay_system r item) \<and> snd (decay_system r item) \<le> 1"
proof -
  have k: "0 \<le> 1 - r * k \<and> 1 - r * k \<le> 1" if "0 \<le> k" "k \<le> 1" for k :: real
  proof -
    have "r * k \<le> 1 * 1" by (rule mult_mono) (use assms that in simp_all)
    moreover have "0 \<le> r * k" using assms that by simp
    ultimately show ?thesis by simp
  qed
  have m: "0 \<le> a * f \<and> a * f \<le> 1" if "0 \<le> f \<and> f \<le> 1" "0 \<le> a \<and> a \<le> 1" for a f :: real
  proof -
    have "a * f \<le> 1 * 1" by (rule mult_mono) (use that in simp_all)
    then show ?thesis using that by simp
  qed
  from k [of "0.5"] k [of 1] k [of "0.8"] assms(3)
  show ?thesis by (simp add: decay_system_def Let_def m)
qed

lemma decay_preserves_bounds_within_800:
  assumes "state_in_bounds self" "in_affect_bounds (baseline_affect self)"
    and "0 \<le> secs" "secs \<le> 800"
  shows "state_in_bounds (decay self now (Some secs))"
proof -
  note r = decay_rate_unit [OF assms(3,4), of "current_affect self"]
  from assms(1) have c: "in_affect_bounds (current_affect self)"
    and a: "activations_in_bounds (system_activations self)"
    by (simp_all add: state_in_bounds_def)
  have "in_affect_bounds (current_affect (decay self now (Some secs)))"
    using blend_in_bounds [OF c assms(2) conjunct1 [OF r] conjunct2 [OF r]]
    by (simp add: decay_toward_eq_blend)
  moreover have "activations_in_bounds (system_activations (decay self now (Some secs)))"
    using a decay_system_in_bounds [OF conjunct1 [OF r] conjunct2 [OF r]]
    by (simp add: decay_def Let_def activations_in_bounds_def list_all_iff)
  ultimately show ?thesis by (simp add: state_in_bounds_def)
qed

text \<open>
  C2, evaluated where it fails. The rate that \<^verbatim>\<open>decay\<close> computes grows with the elapsed
  time without a cap, and nothing after it clamps.
  \<^item> From the state the factory builds by default, which lies inside every declared
    interval, the two calls \<^verbatim>\<open>appraise_message("Thank you so much, I am so grateful")\<close> and
    \<^verbatim>\<open>decay(3600)\<close> leave the CARE activation at \<open>0.225 * (1 - 3) = -0.45\<close>.
  \<^item> From \<open>warm_state\<close>, which lies inside every declared interval, \<^verbatim>\<open>decay(3600)\<close> uses the
    rate \<open>4.5\<close>: the valence becomes \<open>-1.075\<close> and the CARE activation \<open>-1.75\<close>.
\<close>

theorem decay_leaves_bounds_after_an_hour:
  "create_advanced_emotional_state ''c'' 0.15 0.1 0.0 0.25 0 =
     Inr (state_with (dims 0.15 0.1 0.0) (dims 0.15 0.1 0.0) 0.25) \<and>
   state_in_bounds (state_with (dims 0.15 0.1 0.0) (dims 0.15 0.1 0.0) 0.25) \<and>
   dict_get (system_activations
       (decay (snd (appraise_message (state_with (dims 0.15 0.1 0.0) (dims 0.15 0.1 0.0) 0.25)
                      scenario_A_message)) 0 (Some 3600))) ''care'' 0 = - 0.45 \<and>
   state_in_bounds warm_state \<and> in_affect_bounds (baseline_affect warm_state) \<and>
   inertia_in_bounds warm_state \<and>
   current_affect (decay warm_state 0 (Some 3600)) = dims (- 1.075) 0.45 0 \<and>
   dict_get (system_activations (decay warm_state 0 (Some 3600))) ''care'' 0 = - 1.75 \<and>
   \<not> in_affect_bounds (current_affect (decay warm_state 0 (Some 3600))) \<and>
   \<not> activations_in_bounds (system_activations (decay warm_state 0 (Some 3600)))"
proof -
  have thanks: "create_advanced_emotional_state ''c'' 0.15 0.1 0.0 0.25 0 =
     Inr (state_with (dims 0.15 0.1 0.0) (dims 0.15 0.1 0.0) 0.25) \<and>
   state_in_bounds (state_with (dims 0.15 0.1 0.0) (dims 0.15 0.1 0.0) 0.25) \<and>
   dict_get (system_activations
       (decay (snd (appraise_message (state_with (dims 0.15 0.1 0.0) (dims 0.15 0.1 0.0) 0.25)
                      scenario_A_message)) 0 (Some 3600))) ''care'' 0 = - 0.45"
    unfolding scenario_A_result snd_conv
    by (simp add: create_advanced_emotional_state_def new_AdvancedEmotionalState_def
        state_with_def dims_def state_in_bounds_def in_affect_bounds_def
        activations_in_bounds_def all_systems_def activate_system_def decay_def
        decay_rate_of_def decay_system_def dict_get_def Let_def)
  have warm: "state_in_bounds warm_state \<and> in_affect_bounds (baseline_affect warm_state) \<and>
   inertia_in_bounds warm_state \<and>
   current_affect (decay warm_state 0 (Some 3600)) = dims (- 1.075) 0.45 0 \<and>
   dict_get (system_activations (decay warm_state 0 (Some 3600))) ''care'' 0 = - 1.75 \<and>
   \<not> in_affect_bounds (current_affect (decay warm_state 0 (Some 3600))) \<and>
   \<not> activations_in_bounds (system_activations (decay warm_state 0 (Some 3600)))"
    by (simp add: warm_state_def state_with_def dims_def state_in_bounds_def in_affect_bounds_def
        activations_in_bounds_def inertia_in_bounds_def decay_def decay_rate_of_def
        decay_toward_def decay_system_def dict_get_def Let_def)
  from thanks warm show ?thesis by blast
qed

text \<open>
  C3, evaluated where it fails. From \<open>warm_state\<close>, \<^verbatim>\<open>decay(3600)\<close> passes the baseline and
  ends \<open>3.5\<close> times as far from it as it started.
\<close>

theorem decay_overshoots_after_an_hour:
  "distance_to (current_affect (decay warm_state 0 (Some 3600)))
               (baseline_affect (decay warm_state 0 (Some 3600)))
     = 3.5 * distance_to (current_affect warm_state) (baseline_affect warm_state) \<and>
   distance_to (current_affect warm_state) (baseline_affect warm_state)
     < distance_to (current_affect (decay warm_state 0 (Some 3600)))
                   (baseline_affect (decay warm_state 0 (Some 3600)))"
proof -
  have r: "decay_rate_of (current_affect warm_state) 3600 = 4.5"
    by (simp add: warm_state_def state_with_def dims_def decay_rate_of_def)
  have pos: "0 < distance_to (current_affect warm_state) (baseline_affect warm_state)"
    by (simp add: warm_state_def state_with_def dims_def distance_to_def power2_eq_square)
  have eq: "distance_to (current_affect (decay warm_state 0 (Some 3600)))
               (baseline_affect (decay warm_state 0 (Some 3600)))
     = 3.5 * distance_to (current_affect warm_state) (baseline_affect warm_state)"
    by (simp add: distance_decay_toward r)
  show ?thesis unfolding eq using pos by simp
qed

end
